theory Spec2Isabelle
  imports Main "HOL-Library.Word"
begin

section \<open>Data model of the MachineHealthCheck controller\<close>

text \<open>
  The embedding follows \<^verbatim>\<open>controllers/machinehealthcheck_controller.go\<close>.
  Go structs are records, \<^verbatim>\<open>runtime.Object\<close> is a tagged union, a Go
  \<^verbatim>\<open>(value, error)\<close> return is a sum with the error on the left, a
  \<^verbatim>\<open>map[string]string\<close> is a partial function, and a map that may be
  \<^verbatim>\<open>nil\<close> is an optional partial function.  A \<^verbatim>\<open>time.Duration\<close>
  and a point in time are integers (nanoseconds); the \<^verbatim>\<open>int32\<close> status
  counters are 32-bit words.
\<close>

type_synonym duration = int
type_synonym time = int

record NamespacedName =
  nn_Namespace :: string
  nn_Name :: string

datatype Request = Request NamespacedName

record Result =
  Requeue :: bool
  RequeueAfter :: duration

record OwnerReference =
  or_APIVersion :: string
  or_Kind :: string
  or_Name :: string
  or_UID :: string

record ObjectReference =
  ref_Kind :: string
  ref_Namespace :: string
  ref_Name :: string

record LabelSelectorRequirement =
  lsr_Key :: string
  lsr_Operator :: string
  lsr_Values :: "string list"

record LabelSelector =
  ls_MatchLabels :: "(string \<times> string) list"
  ls_MatchExpressions :: "LabelSelectorRequirement list"

record UnhealthyCondition =
  uc_Type :: string
  uc_Status :: string
  uc_Timeout :: duration

record MachineHealthCheck =
  mhc_Namespace :: string
  mhc_Name :: string
  mhc_Labels :: "(string \<rightharpoonup> string) option"
  mhc_Paused :: bool
  mhc_OwnerReferences :: "OwnerReference list"
  mhc_ClusterName :: string
  mhc_Selector :: LabelSelector
  mhc_UnhealthyConditions :: "UnhealthyCondition list"
  mhc_NodeStartupTimeout :: "duration option"
  mhc_ExpectedMachines :: "32 word"
  mhc_CurrentHealthy :: "32 word"

record Cluster =
  c_Namespace :: string
  c_Name :: string
  c_UID :: string
  c_Paused :: bool

record Machine =
  m_Namespace :: string
  m_Name :: string
  m_Labels :: "string \<rightharpoonup> string"
  m_ClusterName :: string
  m_CreationTimestamp :: time
  m_NodeRef :: "ObjectReference option"

record NodeCondition =
  nc_Type :: string
  nc_Status :: string
  nc_LastTransitionTime :: time

record Node =
  n_Namespace :: string
  n_Name :: string
  n_Conditions :: "NodeCondition list"

text \<open>\<^verbatim>\<open>runtime.Object\<close>, with the type assertions of the source as pattern matches.\<close>

datatype Object =
    ObjMachineHealthCheck MachineHealthCheck
  | ObjCluster Cluster
  | ObjMachine Machine
  | ObjNode Node

text \<open>
  Errors.  \<open>StatusNotFound\<close> is an API status error that
  \<^verbatim>\<open>apierrors.IsNotFound\<close> recognises, \<open>ExternalError\<close> any other
  error of a collaborator, \<open>Wrap\<close> is \<^verbatim>\<open>errors.Wrap\<close>, \<open>Wrapf\<close> is
  \<^verbatim>\<open>errors.Wrapf\<close> with its format and arguments,
  \<open>Aggregate\<close> the value built by \<^verbatim>\<open>kerrors.NewAggregate\<close>.
\<close>

datatype err =
    StatusNotFound string
  | ExternalError string
  | IncorrectType
  | NoSuchIndex string
  | ExpectingOneMachine string "Machine list"
  | Wrap err string
  | Wrapf err string "string list"
  | Aggregate "err list"

fun IsNotFound :: "err \<Rightarrow> bool" where
  "IsNotFound (StatusNotFound _) = True"
| "IsNotFound _ = False"

text \<open>A call of \<^verbatim>\<open>Log.Error(err, msg, keysAndValues...)\<close> or of
  \<^verbatim>\<open>Log.V(3).Info(msg)\<close>.\<close>

datatype log_entry =
    LogError err string "(string \<times> string) list"
  | LogInfo string

definition mhcClusterNameIndex :: string where
  "mhcClusterNameIndex = ''spec.clusterName''"

definition machineNodeNameIndex :: string where
  "machineNodeNameIndex = ''status.nodeRef.name''"

text \<open>The result of \<^verbatim>\<open>fmt.Sprintf("%T", object)\<close> on the dynamic type.\<close>

fun typeName :: "Object \<Rightarrow> string" where
  "typeName (ObjMachineHealthCheck _) = ''*v1alpha3.MachineHealthCheck''"
| "typeName (ObjCluster _) = ''*v1alpha3.Cluster''"
| "typeName (ObjMachine _) = ''*v1alpha3.Machine''"
| "typeName (ObjNode _) = ''*v1.Node''"

section \<open>Label selectors\<close>

text \<open>
  The three operations of \<^verbatim>\<open>k8s.io/apimachinery\<close> that
  \<^verbatim>\<open>hasMatchingLabels\<close> calls are a parameter of the model: the parsed
  selector is of any type \<open>'s\<close>, and nothing is assumed about the library.
\<close>

record 's labels_lib =
  LabelSelectorAsSelector :: "LabelSelector \<Rightarrow> err + 's"
  sel_Empty :: "'s \<Rightarrow> bool"
  sel_Matches :: "'s \<Rightarrow> (string \<rightharpoonup> string) \<Rightarrow> bool"

definition hasMatchingLabels ::
  "'s labels_lib \<Rightarrow> MachineHealthCheck \<Rightarrow> Machine \<Rightarrow> bool" where
  "hasMatchingLabels lib machineHealthCheck machine =
     (case LabelSelectorAsSelector lib (mhc_Selector machineHealthCheck) of
        Inl e \<Rightarrow> False
      | Inr selector \<Rightarrow>
          if sel_Empty lib selector then False
          else if \<not> sel_Matches lib selector (m_Labels machine) then False
          else True)"

subsection \<open>A standard set-based selector library\<close>

text \<open>
  Modelled from the spec: the label-selector library itself (package
  \<^verbatim>\<open>k8s.io/apimachinery\<close>, outside the repository), which the spec assumes
  "to follow standard set-based selector evaluation".  A parsed selector is a list of
  requirements, every one of which must hold; a selector without match labels and
  match expressions parses to the selector without requirements; an operator other than
  In, NotIn, Exists and DoesNotExist, or a value list that does not fit the operator,
  fails to parse.  It instantiates the parameter above on concrete inputs.
\<close>

datatype Operator = OpEquals | OpIn | OpNotIn | OpExists | OpDoesNotExist

record Requirement =
  rq_key :: string
  rq_operator :: Operator
  rq_values :: "string list"

definition NewRequirement :: "string \<Rightarrow> Operator \<Rightarrow> string list \<Rightarrow> err + Requirement" where
  "NewRequirement k op vals =
     (if k = [] then Inl (ExternalError ''name part must be non-empty'')
      else if (op = OpIn \<or> op = OpNotIn) \<and> vals = []
        then Inl (ExternalError ''for in, notin operators, values set can not be empty'')
      else if op = OpEquals \<and> length vals \<noteq> 1
        then Inl (ExternalError ''exact-match compatibility requires one single value'')
      else if (op = OpExists \<or> op = OpDoesNotExist) \<and> vals \<noteq> []
        then Inl (ExternalError ''values set must be empty for exists and does not exist'')
      else Inr \<lparr>rq_key = k, rq_operator = op, rq_values = vals\<rparr>)"

definition parseOperator :: "string \<Rightarrow> err + Operator" where
  "parseOperator s =
     (if s = ''In'' then Inr OpIn
      else if s = ''NotIn'' then Inr OpNotIn
      else if s = ''Exists'' then Inr OpExists
      else if s = ''DoesNotExist'' then Inr OpDoesNotExist
      else Inl (ExternalError (s @ '' is not a valid pod selector operator'')))"

fun matchLabelsRequirements :: "(string \<times> string) list \<Rightarrow> err + Requirement list" where
  "matchLabelsRequirements [] = Inr []"
| "matchLabelsRequirements ((k, v) # kvs) =
     (case NewRequirement k OpEquals [v] of
        Inl e \<Rightarrow> Inl e
      | Inr r \<Rightarrow>
          (case matchLabelsRequirements kvs of
             Inl e \<Rightarrow> Inl e
           | Inr rs \<Rightarrow> Inr (r # rs)))"

fun matchExpressionsRequirements :: "LabelSelectorRequirement list \<Rightarrow> err + Requirement list" where
  "matchExpressionsRequirements [] = Inr []"
| "matchExpressionsRequirements (x # xs) =
     (case parseOperator (lsr_Operator x) of
        Inl e \<Rightarrow> Inl e
      | Inr op \<Rightarrow>
          (case NewRequirement (lsr_Key x) op (lsr_Values x) of
             Inl e \<Rightarrow> Inl e
           | Inr r \<Rightarrow>
               (case matchExpressionsRequirements xs of
                  Inl e \<Rightarrow> Inl e
                | Inr rs \<Rightarrow> Inr (r # rs))))"

definition std_LabelSelectorAsSelector :: "LabelSelector \<Rightarrow> err + Requirement list" where
  "std_LabelSelectorAsSelector ps =
     (if ls_MatchLabels ps = [] \<and> ls_MatchExpressions ps = [] then Inr []
      else
        (case matchLabelsRequirements (ls_MatchLabels ps) of
           Inl e \<Rightarrow> Inl e
         | Inr rs1 \<Rightarrow>
             (case matchExpressionsRequirements (ls_MatchExpressions ps) of
                Inl e \<Rightarrow> Inl e
              | Inr rs2 \<Rightarrow> Inr (rs1 @ rs2))))"

fun requirementMatches :: "Requirement \<Rightarrow> (string \<rightharpoonup> string) \<Rightarrow> bool" where
  "requirementMatches r ls =
     (case rq_operator r of
        OpEquals \<Rightarrow> (case ls (rq_key r) of None \<Rightarrow> False | Some v \<Rightarrow> v \<in> set (rq_values r))
      | OpIn \<Rightarrow> (case ls (rq_key r) of None \<Rightarrow> False | Some v \<Rightarrow> v \<in> set (rq_values r))
      | OpNotIn \<Rightarrow> (case ls (rq_key r) of None \<Rightarrow> True | Some v \<Rightarrow> v \<notin> set (rq_values r))
      | OpExists \<Rightarrow> (case ls (rq_key r) of None \<Rightarrow> False | Some v \<Rightarrow> True)
      | OpDoesNotExist \<Rightarrow> (case ls (rq_key r) of None \<Rightarrow> True | Some v \<Rightarrow> False))"

definition std_labels :: "Requirement list labels_lib" where
  "std_labels =
     \<lparr>LabelSelectorAsSelector = std_LabelSelectorAsSelector,
      sel_Empty = (\<lambda>rs. rs = []),
      sel_Matches = (\<lambda>rs ls. list_all (\<lambda>r. requirementMatches r ls) rs)\<rparr>"

section \<open>The collaborators outside the controller\<close>

text \<open>Opaque handles built by the remote-cluster and client libraries.\<close>

datatype cluster_client = ClusterClient string
datatype rest_config = RESTConfig string
datatype k8s_client = K8sClient string

text \<open>The node informer of \<^verbatim>\<open>factory.Core().V1().Nodes().Informer()\<close>,
  identified by the client its factory was built from.\<close>

datatype informer = NodeInformer k8s_client

text \<open>\<^verbatim>\<open>healthCheckTarget\<close>: a machine, its node if it has one, and the policy.\<close>

record Target =
  t_Machine :: Machine
  t_Node :: "Node option"
  t_MHC :: MachineHealthCheck

text \<open>
  Everything \<^verbatim>\<open>Reconcile\<close> and the mapping functions call that lies outside
  the source file is a field of the environment: the outcome of every call is a function
  of its arguments, and the cached object store is the list of objects it holds together
  with the error, if any, its \<^verbatim>\<open>List\<close> returns.  The patch helper that
  \<^verbatim>\<open>patch.NewHelper\<close> builds is the snapshot of the object it was built from:
  \<open>e_NewHelper\<close> gives the error of building it, if any, and \<open>e_Patch\<close> receives
  the snapshot and the object to patch.  The theorems hold for every environment.
\<close>

record env =
  e_Get :: "NamespacedName \<Rightarrow> err + MachineHealthCheck"
  e_GetClusterByName :: "string \<Rightarrow> string \<Rightarrow> err + Cluster"
  e_NewHelper :: "MachineHealthCheck \<Rightarrow> err option"
  e_Patch :: "MachineHealthCheck \<Rightarrow> MachineHealthCheck \<Rightarrow> err option"
  e_EnsureOwnerRef :: "OwnerReference list \<Rightarrow> OwnerReference \<Rightarrow> OwnerReference list"
  e_NewClusterClient :: "Cluster \<Rightarrow> err + cluster_client"
  e_RESTConfig :: "Cluster \<Rightarrow> err + rest_config"
  e_NewForConfig :: "rest_config \<Rightarrow> err + k8s_client"
  e_Watch :: "informer \<Rightarrow> err option"
  e_getTargetsFromMHC :: "cluster_client \<Rightarrow> Cluster \<Rightarrow> MachineHealthCheck \<Rightarrow> err + Target list"
  e_now :: time
  e_machines :: "Machine list"
  e_mhcs :: "MachineHealthCheck list"
  e_ListMachines_err :: "err option"
  e_ListMHCs_err :: "err option"

section \<open>Secondary indexes\<close>

definition indexMachineHealthCheckByClusterName :: "Object \<Rightarrow> string list \<times> log_entry list" where
  "indexMachineHealthCheckByClusterName object =
     (case object of
        ObjMachineHealthCheck mhc \<Rightarrow> ([mhc_ClusterName mhc], [])
      | _ \<Rightarrow> ([], [LogError IncorrectType ''expected a MachineHealthCheck''
                       [(''type'', typeName object)]]))"

definition indexMachineByNodeName :: "Object \<Rightarrow> string list \<times> log_entry list" where
  "indexMachineByNodeName object =
     (case object of
        ObjMachine machine \<Rightarrow>
          (case m_NodeRef machine of
             Some nodeRef \<Rightarrow> ([ref_Name nodeRef], [])
           | None \<Rightarrow> ([], []))
      | _ \<Rightarrow> ([], [LogError IncorrectType ''expected a Machine''
                       [(''type'', typeName object)]]))"

text \<open>The \<^verbatim>\<open>IndexField\<close> registrations of \<^verbatim>\<open>SetupWithManager\<close>,
  per object kind: index name to extraction function.\<close>

definition mhcIndexField :: "string \<Rightarrow> (Object \<Rightarrow> string list \<times> log_entry list) option" where
  "mhcIndexField name =
     (if name = mhcClusterNameIndex then Some indexMachineHealthCheckByClusterName else None)"

definition machineIndexField :: "string \<Rightarrow> (Object \<Rightarrow> string list \<times> log_entry list) option" where
  "machineIndexField name =
     (if name = machineNodeNameIndex then Some indexMachineByNodeName else None)"

text \<open>
  Modelled from the spec: the object store's \<^verbatim>\<open>List(kind, namespace,
  fieldSelector)\<close> (section 6; the client is outside the repository).  It returns the
  store's error if it has one; otherwise the objects of the kind that lie in the
  namespace (the empty namespace stands for all namespaces) and whose index entry under
  the registered index holds the value.
\<close>

definition ListMachineHealthChecks ::
  "env \<Rightarrow> string \<Rightarrow> string \<times> string \<Rightarrow> err + MachineHealthCheck list" where
  "ListMachineHealthChecks e ns matchingField =
     (case e_ListMHCs_err e of
        Some x \<Rightarrow> Inl x
      | None \<Rightarrow>
          (case mhcIndexField (fst matchingField) of
             None \<Rightarrow> Inl (NoSuchIndex (fst matchingField))
           | Some index \<Rightarrow>
               Inr (filter (\<lambda>mhc. (ns = [] \<or> mhc_Namespace mhc = ns) \<and>
                      snd matchingField \<in> set (fst (index (ObjMachineHealthCheck mhc))))
                    (e_mhcs e))))"

definition ListMachines ::
  "env \<Rightarrow> string \<Rightarrow> string \<times> string \<Rightarrow> err + Machine list" where
  "ListMachines e ns matchingField =
     (case e_ListMachines_err e of
        Some x \<Rightarrow> Inl x
      | None \<Rightarrow>
          (case machineIndexField (fst matchingField) of
             None \<Rightarrow> Inl (NoSuchIndex (fst matchingField))
           | Some index \<Rightarrow>
               Inr (filter (\<lambda>m. (ns = [] \<or> m_Namespace m = ns) \<and>
                      snd matchingField \<in> set (fst (index (ObjMachine m))))
                    (e_machines e))))"

section \<open>Event routing\<close>

definition namespacedName :: "string \<Rightarrow> string \<Rightarrow> NamespacedName" where
  "namespacedName ns name = \<lparr>nn_Namespace = ns, nn_Name = name\<rparr>"

text \<open>\<^verbatim>\<open>types.NamespacedName.String()\<close>.\<close>

definition nnString :: "NamespacedName \<Rightarrow> string" where
  "nnString n = nn_Namespace n @ ''/'' @ nn_Name n"

definition clusterToMachineHealthCheck :: "env \<Rightarrow> Object \<Rightarrow> Request list \<times> log_entry list" where
  "clusterToMachineHealthCheck e obj =
     (case obj of
        ObjCluster c \<Rightarrow>
          (case ListMachineHealthChecks e (c_Namespace c) (mhcClusterNameIndex, c_Name c) of
             Inl x \<Rightarrow> ([], [LogError x ''Unable to list MachineHealthChecks''
                              [(''cluster'', c_Name c), (''namespace'', c_Namespace c)]])
           | Inr items \<Rightarrow>
               (map (\<lambda>mhc. Request \<lparr>nn_Namespace = mhc_Namespace mhc, nn_Name = mhc_Name mhc\<rparr>)
                  items, []))
      | _ \<Rightarrow> ([], [LogError IncorrectType ''expected a Cluster''
                       [(''type'', ''handler.MapObject'')]]))"

text \<open>The loop over \<^verbatim>\<open>mhcList.Items\<close> that both
  \<^verbatim>\<open>machineToMachineHealthCheck\<close> and \<^verbatim>\<open>nodeToMachineHealthCheck\<close>
  end with.\<close>

fun matchingRequests ::
  "'s labels_lib \<Rightarrow> Machine \<Rightarrow> MachineHealthCheck list \<Rightarrow> Request list" where
  "matchingRequests lib m [] = []"
| "matchingRequests lib m (mhc # items) =
     (if hasMatchingLabels lib mhc m
      then Request \<lparr>nn_Namespace = mhc_Namespace mhc, nn_Name = mhc_Name mhc\<rparr>
             # matchingRequests lib m items
      else matchingRequests lib m items)"

definition machineToMachineHealthCheck ::
  "'s labels_lib \<Rightarrow> env \<Rightarrow> Object \<Rightarrow> Request list \<times> log_entry list" where
  "machineToMachineHealthCheck lib e obj =
     (case obj of
        ObjMachine m \<Rightarrow>
          (case ListMachineHealthChecks e (m_Namespace m) (mhcClusterNameIndex, m_ClusterName m) of
             Inl x \<Rightarrow> ([], [LogError x ''Unable to list MachineHealthChecks''
                              [(''machine'', m_Name m), (''namespace'', m_Namespace m)]])
           | Inr items \<Rightarrow> (matchingRequests lib m items, []))
      | _ \<Rightarrow> ([], [LogError IncorrectType ''expected a Machine''
                       [(''type'', ''handler.MapObject'')]]))"

definition getMachineFromNode :: "env \<Rightarrow> string \<Rightarrow> err + Machine" where
  "getMachineFromNode e nodeName =
     (case ListMachines e [] (machineNodeNameIndex, nodeName) of
        Inl x \<Rightarrow> Inl (Wrap x ''failed getting machine list'')
      | Inr items \<Rightarrow>
          (case items of
             [machine] \<Rightarrow> Inr machine
           | _ \<Rightarrow> Inl (ExpectingOneMachine nodeName items)))"

definition nodeToMachineHealthCheck ::
  "'s labels_lib \<Rightarrow> env \<Rightarrow> Object \<Rightarrow> Request list \<times> log_entry list" where
  "nodeToMachineHealthCheck lib e obj =
     (case obj of
        ObjNode node \<Rightarrow>
          (case getMachineFromNode e (n_Name node) of
             Inl x \<Rightarrow> ([], [LogError x ''Unable to retrieve machine from node''
                              [(''node'', nnString (namespacedName (n_Namespace node) (n_Name node)))]])
           | Inr machine \<Rightarrow>
               (case ListMachineHealthChecks e (m_Namespace machine)
                       (mhcClusterNameIndex, m_ClusterName machine) of
                  Inl x \<Rightarrow> ([], [LogError x ''Unable to list MachineHealthChecks''
                                   [(''node'', n_Name node), (''machine'', m_Name machine),
                                    (''namespace'', m_Namespace machine)]])
                | Inr items \<Rightarrow> (matchingRequests lib machine items, [])))
      | _ \<Rightarrow> ([], [LogError IncorrectType ''expected a Node''
                       [(''type'', ''handler.MapObject'')]]))"

section \<open>Effects of a reconciliation pass\<close>

text \<open>
  A function of the controller returns, next to its Go results, the state of the reconciler
  after the call and the trace of what it did: every call of a collaborator, every log
  line, every recorded event and every background task it started, in program order.  Log
  lines carry the key/value pairs the source passes as strings; pairs whose values are
  formatted Go values, and the values attached by \<^verbatim>\<open>WithValues\<close>, are left out.
\<close>

datatype event =
    Log log_entry
  | CallGet NamespacedName
  | CallGetClusterByName string string
  | CallNewHelper MachineHealthCheck
  | CallPatch MachineHealthCheck
  | CallNewClusterClient Cluster
  | CallRESTConfig Cluster
  | CallNewForConfig rest_config
  | InformerRun informer
  | CallWatch informer
  | CallGetTargets cluster_client Cluster MachineHealthCheck
  | RecorderEvent MachineHealthCheck string string err

text \<open>The mutable state of \<^verbatim>\<open>MachineHealthCheckReconciler\<close>: the map of node
  informers per cluster key, \<open>None\<close> while the Go map is \<^verbatim>\<open>nil\<close>.\<close>

record Reconciler =
  clusterNodeInformers :: "(NamespacedName \<rightharpoonup> informer) option"

text \<open>\<^verbatim>\<open>_, ok := r.clusterNodeInformers[key]\<close>: a read of a nil map finds nothing.\<close>

definition informerFor :: "Reconciler \<Rightarrow> NamespacedName \<Rightarrow> informer option" where
  "informerFor r key = (case clusterNodeInformers r of None \<Rightarrow> None | Some reg \<Rightarrow> reg key)"

text \<open>Lines 382 to 386: make the map if it is nil, then store the informer.\<close>

definition storeInformer :: "Reconciler \<Rightarrow> NamespacedName \<Rightarrow> informer \<Rightarrow> Reconciler" where
  "storeInformer r key nodeInformer =
     r\<lparr>clusterNodeInformers :=
         Some ((case clusterNodeInformers r of None \<Rightarrow> Map.empty | Some reg \<Rightarrow> reg)
                 (key \<mapsto> nodeInformer))\<rparr>"

definition watchKey :: "Cluster \<Rightarrow> NamespacedName" where
  "watchKey cluster = \<lparr>nn_Namespace = c_Name cluster, nn_Name = c_Name cluster\<rparr>"

definition watchClusterNodes ::
  "env \<Rightarrow> Reconciler \<Rightarrow> Cluster \<Rightarrow> err option \<times> Reconciler \<times> event list" where
  "watchClusterNodes e r cluster =
     (let key = watchKey cluster in
      case informerFor r key of
        Some _ \<Rightarrow> (None, r, [])
      | None \<Rightarrow>
          (case e_RESTConfig e cluster of
             Inl x \<Rightarrow>
               (Some (Wrap x ''error fetching remote cluster config''), r,
                [CallRESTConfig cluster])
           | Inr config \<Rightarrow>
               (case e_NewForConfig e config of
                  Inl x \<Rightarrow>
                    (Some (Wrap x ''error constructing remote cluster client''), r,
                     [CallRESTConfig cluster, CallNewForConfig config])
                | Inr k8sClient \<Rightarrow>
                    (let nodeInformer = NodeInformer k8sClient in
                     case e_Watch e nodeInformer of
                       Some x \<Rightarrow>
                         (Some (Wrap x ''error watching nodes on target cluster''), r,
                          [CallRESTConfig cluster, CallNewForConfig config,
                           InformerRun nodeInformer, CallWatch nodeInformer])
                     | None \<Rightarrow>
                         (None, storeInformer r key nodeInformer,
                          [CallRESTConfig cluster, CallNewForConfig config,
                           InformerRun nodeInformer, CallWatch nodeInformer])))))"

section \<open>Health evaluation\<close>

text \<open>The verdict on one target.\<close>

datatype verdict = Healthy | NeedsRemediation | NotYetDecidable duration

definition matchingCondition :: "NodeCondition list \<Rightarrow> UnhealthyCondition \<Rightarrow> NodeCondition option" where
  "matchingCondition conds rule =
     find (\<lambda>c. nc_Type c = uc_Type rule \<and> nc_Status c = uc_Status rule) conds"

fun firstMatchingRule ::
  "UnhealthyCondition list \<Rightarrow> NodeCondition list \<Rightarrow> (UnhealthyCondition \<times> NodeCondition) option" where
  "firstMatchingRule [] conds = None"
| "firstMatchingRule (rule # rules) conds =
     (case matchingCondition conds rule of
        Some c \<Rightarrow> Some (rule, c)
      | None \<Rightarrow> firstMatchingRule rules conds)"

text \<open>
  Modelled from the spec: the evaluation of one target (the method
  \<^verbatim>\<open>needsRemediation\<close> of the repository's targets file, which is not among the
  sources), after section 4.5 and the boundary given in section 8.  A target without a
  node is unhealthy once the machine's age has reached the node-startup timeout and is
  not yet decidable before, with the rest of the timeout remaining.  A target with a node
  is judged by the first rule of the policy that matches one of the node's conditions:
  unhealthy once the time since the condition's last transition has reached the rule's
  timeout, not yet decidable before; it is healthy when no rule matches.
\<close>

definition classify :: "time \<Rightarrow> duration \<Rightarrow> Target \<Rightarrow> verdict" where
  "classify now timeoutForMachineToHaveNode t =
     (case t_Node t of
        None \<Rightarrow>
          (let age = now - m_CreationTimestamp (t_Machine t) in
           if age \<ge> timeoutForMachineToHaveNode then NeedsRemediation
           else NotYetDecidable (timeoutForMachineToHaveNode - age))
      | Some node \<Rightarrow>
          (case firstMatchingRule (mhc_UnhealthyConditions (t_MHC t)) (n_Conditions node) of
             None \<Rightarrow> Healthy
           | Some (rule, c) \<Rightarrow>
               (let elapsed = now - nc_LastTransitionTime c in
                if elapsed \<ge> uc_Timeout rule then NeedsRemediation
                else NotYetDecidable (uc_Timeout rule - elapsed))))"

text \<open>
  Modelled from the spec: \<^verbatim>\<open>healthCheckTargets\<close> (targets file, not among the
  sources), the aggregate of section 4.5: the number of healthy targets, the targets that
  need remediation, and the remaining times of the targets not yet decidable.  The
  current time is the environment's.
\<close>

fun healthCheckTargets :: "time \<Rightarrow> Target list \<Rightarrow> duration \<Rightarrow> nat \<times> Target list \<times> duration list" where
  "healthCheckTargets now [] timeoutForMachineToHaveNode = (0, [], [])"
| "healthCheckTargets now (t # ts) timeoutForMachineToHaveNode =
     (case healthCheckTargets now ts timeoutForMachineToHaveNode of
        (currentHealthy, needRemediationTargets, nextCheckTimes) \<Rightarrow>
          (case classify now timeoutForMachineToHaveNode t of
             Healthy \<Rightarrow> (Suc currentHealthy, needRemediationTargets, nextCheckTimes)
           | NeedsRemediation \<Rightarrow> (currentHealthy, t # needRemediationTargets, nextCheckTimes)
           | NotYetDecidable d \<Rightarrow> (currentHealthy, needRemediationTargets, d # nextCheckTimes)))"

text \<open>
  Modelled from the spec: \<^verbatim>\<open>minDuration\<close> (targets file, not among the sources):
  "the minimum of all such targets' remaining decision times", and zero, which
  \<^verbatim>\<open>reconcile\<close> reads as no requeue, for the empty list.
\<close>

fun minDuration :: "duration list \<Rightarrow> duration" where
  "minDuration [] = 0"
| "minDuration [d] = d"
| "minDuration (d # ds) = min d (minDuration ds)"

section \<open>The reconciler\<close>

text \<open>\<^verbatim>\<open>ctrl.Result{}\<close>.\<close>

definition noRequeue :: Result where
  "noRequeue = \<lparr>Requeue = False, RequeueAfter = 0\<rparr>"

text \<open>Constants of the API package \<^verbatim>\<open>api/v1alpha3\<close> and of package
  \<^verbatim>\<open>time\<close>, which are not among the sources.\<close>

definition ClusterLabelName :: string where
  "ClusterLabelName = ''cluster.x-k8s.io/cluster-name''"

definition GroupVersionString :: string where
  "GroupVersionString = ''cluster.x-k8s.io/v1alpha3''"

definition Minute :: duration where
  "Minute = 60 * 1000000000"

text \<open>
  Modelled from the spec: \<^verbatim>\<open>util.IsPaused\<close> (package util of the repository,
  not among the sources): "Cluster or the policy itself is flagged paused".
\<close>

definition IsPaused :: "Cluster \<Rightarrow> MachineHealthCheck \<Rightarrow> bool" where
  "IsPaused cluster m = (c_Paused cluster \<or> mhc_Paused m)"

text \<open>
  Modelled from the spec: \<^verbatim>\<open>kerrors.NewAggregate\<close> (package
  \<^verbatim>\<open>k8s.io/apimachinery\<close>, outside the repository): the errors of the list that
  are not nil, combined into one error that holds them all in order; nil when there is
  none.
\<close>

definition NewAggregate :: "err option list \<Rightarrow> err option" where
  "NewAggregate errlist =
     (case List.map_filter id errlist of
        [] \<Rightarrow> None
      | errs \<Rightarrow> Some (Aggregate errs))"

text \<open>Lines 171 to 176: the owner reference to the cluster.\<close>

definition ensureClusterOwnerRef :: "env \<Rightarrow> Cluster \<Rightarrow> MachineHealthCheck \<Rightarrow> MachineHealthCheck" where
  "ensureClusterOwnerRef e cluster m =
     m\<lparr>mhc_OwnerReferences :=
         e_EnsureOwnerRef e (mhc_OwnerReferences m)
           \<lparr>or_APIVersion = GroupVersionString, or_Kind = ''Cluster'',
            or_Name = c_Name cluster, or_UID = c_UID cluster\<rparr>\<rparr>"

text \<open>Lines 204 to 208: ten minutes unless the policy sets the timeout.\<close>

definition timeoutForMachineToHaveNode :: "MachineHealthCheck \<Rightarrow> duration" where
  "timeoutForMachineToHaveNode m =
     (case mhc_NodeStartupTimeout m of
        Some d \<Rightarrow> d
      | None \<Rightarrow> 10 * Minute)"

text \<open>Lines 214 to 218: one log line per target that needs remediation.\<close>

fun remediate :: "Target list \<Rightarrow> event list" where
  "remediate [] = []"
| "remediate (t # ts) =
     Log (LogInfo ''Target meets unhealthy criteria, triggers remediation'') # remediate ts"

text \<open>
  \<^verbatim>\<open>reconcile\<close> mutates the policy object through its pointer, also on the paths
  that fail: the object as it leaves the call is the second component of the result.
\<close>

definition reconcile ::
  "env \<Rightarrow> Reconciler \<Rightarrow> Cluster \<Rightarrow> MachineHealthCheck \<Rightarrow>
     (Result \<times> err option) \<times> MachineHealthCheck \<times> Reconciler \<times> event list" where
  "reconcile e r cluster m0 =
     (let m = ensureClusterOwnerRef e cluster m0 in
      case e_NewClusterClient e cluster of
        Inl x \<Rightarrow>
          ((noRequeue, Some x), m, r,
           [CallNewClusterClient cluster,
            Log (LogError x ''Error building target cluster client'' [])])
      | Inr clusterClient \<Rightarrow>
          (case watchClusterNodes e r cluster of
             (Some x, r1, wevs) \<Rightarrow>
               ((noRequeue, Some x), m, r1,
                CallNewClusterClient cluster # wevs @
                [Log (LogError x ''Error watching nodes on target cluster'' [])])
           | (None, r1, wevs) \<Rightarrow>
               (case e_getTargetsFromMHC e clusterClient cluster m of
                  Inl x \<Rightarrow>
                    ((noRequeue, Some x), m, r1,
                     CallNewClusterClient cluster # wevs @
                     [Log (LogInfo ''Finding targets''),
                      CallGetTargets clusterClient cluster m,
                      Log (LogError x ''Failed to fetch targets from MachineHealthCheck'' [])])
                | Inr targets \<Rightarrow>
                    (let totalTargets = length targets;
                         m1 = m\<lparr>mhc_ExpectedMachines := of_nat totalTargets\<rparr>
                     in
                     case healthCheckTargets (e_now e) targets (timeoutForMachineToHaveNode m1) of
                       (currentHealthy, needRemediationTargets, nextCheckTimes) \<Rightarrow>
                         (let m2 = m1\<lparr>mhc_CurrentHealthy := of_nat currentHealthy\<rparr>;
                              evs = CallNewClusterClient cluster # wevs @
                                    [Log (LogInfo ''Finding targets''),
                                     CallGetTargets clusterClient cluster m] @
                                    remediate needRemediationTargets;
                              minNextCheck = minDuration nextCheckTimes
                          in
                          if minNextCheck > 0
                          then ((\<lparr>Requeue = False, RequeueAfter = minNextCheck\<rparr>, None), m2, r1,
                                evs @ [Log (LogInfo ''Some targets might go unhealthy. Ensuring a requeue happens'')])
                          else ((noRequeue, None), m2, r1,
                                evs @ [Log (LogInfo ''No more targets meet unhealthy criteria'')]))))))"

text \<open>Lines 151 to 155: default the labels, then set the cluster label.\<close>

definition reconcileLabels :: "MachineHealthCheck \<Rightarrow> MachineHealthCheck" where
  "reconcileLabels m =
     m\<lparr>mhc_Labels :=
         Some ((case mhc_Labels m of None \<Rightarrow> Map.empty | Some ls \<Rightarrow> ls)
                 (ClusterLabelName \<mapsto> mhc_ClusterName m))\<rparr>"

text \<open>Lines 151 to 166, the statements of \<^verbatim>\<open>Reconcile\<close> that run once the
  deferred patch is registered, up to their \<^verbatim>\<open>return\<close>.\<close>

definition reconcileBody ::
  "env \<Rightarrow> Reconciler \<Rightarrow> Cluster \<Rightarrow> MachineHealthCheck \<Rightarrow>
     (Result \<times> err option) \<times> MachineHealthCheck \<times> Reconciler \<times> event list" where
  "reconcileBody e r cluster m0 =
     (case reconcile e r cluster (reconcileLabels m0) of
        ((result, Some x), m, r1, evs) \<Rightarrow>
          ((noRequeue, Some x), m, r1,
           evs @ [Log (LogError x ''Failed to reconcile MachineHealthCheck'' []),
                  RecorderEvent m ''Warning'' ''ReconcileError'' x])
      | ((result, None), m, r1, evs) \<Rightarrow> ((result, None), m, r1, evs))"

text \<open>
  Lines 144 to 149, the deferred function.  It runs after the \<^verbatim>\<open>return\<close> has set
  the named result \<^verbatim>\<open>reterr\<close>, patches the object as the body left it against the
  snapshot the helper took, and may replace \<^verbatim>\<open>reterr\<close>.
\<close>

definition deferredPatch ::
  "env \<Rightarrow> MachineHealthCheck \<Rightarrow> MachineHealthCheck \<Rightarrow> err option \<Rightarrow> err option \<times> event list" where
  "deferredPatch e before m reterr =
     (case e_Patch e before m of
        Some x \<Rightarrow> (NewAggregate [reterr, Some x], [CallPatch m])
      | None \<Rightarrow> (reterr, [CallPatch m]))"

definition Reconcile ::
  "env \<Rightarrow> Reconciler \<Rightarrow> Request \<Rightarrow> (Result \<times> err option) \<times> Reconciler \<times> event list" where
  "Reconcile e r req =
     (case req of Request name \<Rightarrow>
        (case e_Get e name of
           Inl x \<Rightarrow>
             if IsNotFound x then ((noRequeue, None), r, [CallGet name])
             else ((noRequeue, Some x), r,
                   [CallGet name, Log (LogError x ''Failed to fetch MachineHealthCheck'' [])])
         | Inr m \<Rightarrow>
             (case e_GetClusterByName e (mhc_Namespace m) (mhc_ClusterName m) of
                Inl x \<Rightarrow>
                  ((noRequeue,
                    Some (Wrapf x ''failed to get Cluster %q for MachineHealthCheck %q in namespace %q''
                            [mhc_ClusterName m, mhc_Name m, mhc_Namespace m])), r,
                   [CallGet name, CallGetClusterByName (mhc_Namespace m) (mhc_ClusterName m),
                    Log (LogError x ''Failed to fetch Cluster for MachineHealthCheck'' [])])
              | Inr cluster \<Rightarrow>
                  if IsPaused cluster m
                  then ((noRequeue, None), r,
                        [CallGet name, CallGetClusterByName (mhc_Namespace m) (mhc_ClusterName m),
                         Log (LogInfo ''reconciliation is paused for this object'')])
                  else
                    (case e_NewHelper e m of
                       Some x \<Rightarrow>
                         ((noRequeue, Some x), r,
                          [CallGet name, CallGetClusterByName (mhc_Namespace m) (mhc_ClusterName m),
                           CallNewHelper m,
                           Log (LogError x ''Failed to build patch helper'' [])])
                     | None \<Rightarrow>
                         (case reconcileBody e r cluster m of
                            ((result, reterr), m1, r1, evs) \<Rightarrow>
                              (case deferredPatch e m m1 reterr of
                                 (reterr1, pevs) \<Rightarrow>
                                   ((result, reterr1), r1,
                                    [CallGet name,
                                     CallGetClusterByName (mhc_Namespace m) (mhc_ClusterName m),
                                     CallNewHelper m] @ evs @ pevs)))))))"

section \<open>Two invocations of the watch-ensuring operation at once\<close>

text \<open>
  \<^verbatim>\<open>watchClusterNodes\<close> takes no lock, so another reconciliation worker can run
  between its read of the map (lines 353 to 357), the start of the informer and of the
  watch (lines 359 to 380) and its write to the map (lines 382 to 387).  These three
  pieces are the steps of one invocation; \<open>watch_pc\<close> is where an invocation stands.
\<close>

datatype watch_pc = AtCheck | AtStart | AtStore informer | Returned "err option"

definition watch_step ::
  "env \<Rightarrow> Cluster \<Rightarrow> watch_pc \<Rightarrow> Reconciler \<Rightarrow> watch_pc \<times> Reconciler \<times> event list" where
  "watch_step e cluster pc r =
     (case pc of
        AtCheck \<Rightarrow>
          (case informerFor r (watchKey cluster) of
             Some _ \<Rightarrow> (Returned None, r, [])
           | None \<Rightarrow> (AtStart, r, []))
      | AtStart \<Rightarrow>
          (case e_RESTConfig e cluster of
             Inl x \<Rightarrow>
               (Returned (Some (Wrap x ''error fetching remote cluster config'')), r,
                [CallRESTConfig cluster])
           | Inr config \<Rightarrow>
               (case e_NewForConfig e config of
                  Inl x \<Rightarrow>
                    (Returned (Some (Wrap x ''error constructing remote cluster client'')), r,
                     [CallRESTConfig cluster, CallNewForConfig config])
                | Inr k8sClient \<Rightarrow>
                    (let nodeInformer = NodeInformer k8sClient in
                     case e_Watch e nodeInformer of
                       Some x \<Rightarrow>
                         (Returned (Some (Wrap x ''error watching nodes on target cluster'')), r,
                          [CallRESTConfig cluster, CallNewForConfig config,
                           InformerRun nodeInformer, CallWatch nodeInformer])
                     | None \<Rightarrow>
                         (AtStore nodeInformer, r,
                          [CallRESTConfig cluster, CallNewForConfig config,
                           InformerRun nodeInformer, CallWatch nodeInformer]))))
      | AtStore nodeInformer \<Rightarrow>
          (Returned None, storeInformer r (watchKey cluster) nodeInformer, [])
      | Returned res \<Rightarrow> (Returned res, r, []))"

text \<open>One invocation run alone: its three steps in a row.\<close>

definition watch_alone ::
  "env \<Rightarrow> Cluster \<Rightarrow> Reconciler \<Rightarrow> watch_pc \<times> Reconciler \<times> event list" where
  "watch_alone e cluster r =
     (case watch_step e cluster AtCheck r of
        (pc1, r1, evs1) \<Rightarrow>
          (case watch_step e cluster pc1 r1 of
             (pc2, r2, evs2) \<Rightarrow>
               (case watch_step e cluster pc2 r2 of
                  (pc3, r3, evs3) \<Rightarrow> (pc3, r3, evs1 @ evs2 @ evs3))))"

text \<open>Two invocations, for the clusters \<open>c1\<close> and \<open>c2\<close>, on the same reconciler; the
  schedule says whose step comes next.\<close>

datatype worker = W1 | W2

fun run_watchers ::
  "env \<Rightarrow> Cluster \<Rightarrow> Cluster \<Rightarrow> worker list \<Rightarrow>
     watch_pc \<times> watch_pc \<times> Reconciler \<times> event list \<Rightarrow>
     watch_pc \<times> watch_pc \<times> Reconciler \<times> event list" where
  "run_watchers e c1 c2 [] s = s"
| "run_watchers e c1 c2 (W1 # sched) (pc1, pc2, r, tr) =
     (case watch_step e c1 pc1 r of
        (pc1', r', evs) \<Rightarrow> run_watchers e c1 c2 sched (pc1', pc2, r', tr @ evs))"
| "run_watchers e c1 c2 (W2 # sched) (pc1, pc2, r, tr) =
     (case watch_step e c2 pc2 r of
        (pc2', r', evs) \<Rightarrow> run_watchers e c1 c2 sched (pc1, pc2', r', tr @ evs))"

fun isInformerRun :: "event \<Rightarrow> bool" where
  "isInformerRun (InformerRun _) = True"
| "isInformerRun _ = False"

fun isCallPatch :: "event \<Rightarrow> bool" where
  "isCallPatch (CallPatch _) = True"
| "isCallPatch _ = False"

section \<open>Concrete objects and environments\<close>

definition ex_mhc :: MachineHealthCheck where
  "ex_mhc =
     \<lparr>mhc_Namespace = ''ns1'', mhc_Name = ''mhc1'', mhc_Labels = None, mhc_Paused = False,
      mhc_OwnerReferences = [], mhc_ClusterName = ''c1'',
      mhc_Selector = \<lparr>ls_MatchLabels = [(''role'', ''worker'')], ls_MatchExpressions = []\<rparr>,
      mhc_UnhealthyConditions =
        [\<lparr>uc_Type = ''Ready'', uc_Status = ''False'', uc_Timeout = 300000000000\<rparr>],
      mhc_NodeStartupTimeout = None, mhc_ExpectedMachines = 0, mhc_CurrentHealthy = 0\<rparr>"

definition ex_mhc_empty :: MachineHealthCheck where
  "ex_mhc_empty =
     ex_mhc\<lparr>mhc_Name := ''mhc-empty'',
            mhc_Selector := \<lparr>ls_MatchLabels = [], ls_MatchExpressions = []\<rparr>\<rparr>"

definition ex_mhc_bad :: MachineHealthCheck where
  "ex_mhc_bad =
     ex_mhc\<lparr>mhc_Name := ''mhc-bad'',
            mhc_Selector := \<lparr>ls_MatchLabels = [],
              ls_MatchExpressions =
                [\<lparr>lsr_Key = ''role'', lsr_Operator = ''Bogus'', lsr_Values = []\<rparr>]\<rparr>\<rparr>"

definition ex_machine :: Machine where
  "ex_machine =
     \<lparr>m_Namespace = ''ns1'', m_Name = ''m1'', m_Labels = [''role'' \<mapsto> ''worker''],
      m_ClusterName = ''c1'', m_CreationTimestamp = 0,
      m_NodeRef = Some \<lparr>ref_Kind = ''Node'', ref_Namespace = '''', ref_Name = ''n1''\<rparr>\<rparr>"

definition ex_machine_other_ns :: Machine where
  "ex_machine_other_ns = ex_machine\<lparr>m_Namespace := ''ns2'', m_Name := ''m2''\<rparr>"

definition ex_node :: Node where
  "ex_node = \<lparr>n_Namespace = '''', n_Name = ''n1'', n_Conditions = []\<rparr>"

definition ex_cluster :: Cluster where
  "ex_cluster = \<lparr>c_Namespace = ''ns1'', c_Name = ''c1'', c_UID = ''uid-c1'', c_Paused = False\<rparr>"

definition ex_cluster_other_ns :: Cluster where
  "ex_cluster_other_ns = ex_cluster\<lparr>c_Namespace := ''ns2'', c_UID := ''uid-c1-ns2''\<rparr>"

text \<open>The reconciler as \<^verbatim>\<open>SetupWithManager\<close> leaves it: an empty map.\<close>

definition ex_reconciler :: Reconciler where
  "ex_reconciler = \<lparr>clusterNodeInformers = Some Map.empty\<rparr>"

definition ex_node_ready :: Node where
  "ex_node_ready =
     ex_node\<lparr>n_Conditions :=
       [\<lparr>nc_Type = ''Ready'', nc_Status = ''True'', nc_LastTransitionTime = 0\<rparr>]\<rparr>"

text \<open>A machine with a healthy node; a machine without a node whose age, at the time
  2000 s of the environments below, is twice the default startup timeout of 600 s; and
  machines without a node that are still 5 s, 12 s and 3 s short of the timeout.\<close>

definition ex_target_healthy :: Target where
  "ex_target_healthy = \<lparr>t_Machine = ex_machine, t_Node = Some ex_node_ready, t_MHC = ex_mhc\<rparr>"

definition ex_target_starting :: "time \<Rightarrow> Target" where
  "ex_target_starting created =
     \<lparr>t_Machine = ex_machine\<lparr>m_Name := ''m-starting'', m_CreationTimestamp := created,
                                 m_NodeRef := None\<rparr>,
      t_Node = None, t_MHC = ex_mhc\<rparr>"

definition ex_target_no_node_old :: Target where
  "ex_target_no_node_old = ex_target_starting 800000000000"

definition ex_name :: NamespacedName where
  "ex_name = \<lparr>nn_Namespace = ''ns1'', nn_Name = ''mhc1''\<rparr>"

definition ex_env :: env where
  "ex_env =
     \<lparr>e_Get = (\<lambda>n. if n = ex_name then Inr ex_mhc
                     else Inl (StatusNotFound (nn_Name n))),
      e_GetClusterByName = (\<lambda>ns name. if ns = ''ns1'' \<and> name = ''c1'' then Inr ex_cluster
                                       else Inl (StatusNotFound name)),
      e_NewHelper = (\<lambda>m. None),
      e_Patch = (\<lambda>before m. None),
      e_EnsureOwnerRef = (\<lambda>refs r. if r \<in> set refs then refs else refs @ [r]),
      e_NewClusterClient = (\<lambda>c. Inr (ClusterClient (c_Name c))),
      e_RESTConfig = (\<lambda>c. Inr (RESTConfig (c_Name c))),
      e_NewForConfig = (\<lambda>cfg. case cfg of RESTConfig s \<Rightarrow> Inr (K8sClient s)),
      e_Watch = (\<lambda>i. None),
      e_getTargetsFromMHC = (\<lambda>cc c m. Inr [ex_target_healthy, ex_target_no_node_old]),
      e_now = 2000000000000,
      e_machines = [ex_machine],
      e_mhcs = [ex_mhc, ex_mhc_empty, ex_mhc_bad],
      e_ListMachines_err = None,
      e_ListMHCs_err = None\<rparr>"

definition ex_env_two :: env where
  "ex_env_two = ex_env\<lparr>e_machines := [ex_machine, ex_machine_other_ns]\<rparr>"

definition ex_env_no_config :: env where
  "ex_env_no_config = ex_env\<lparr>e_RESTConfig := (\<lambda>c. Inl (ExternalError ''no kubeconfig secret''))\<rparr>"

definition ex_env_no_client :: env where
  "ex_env_no_client = ex_env\<lparr>e_NewForConfig := (\<lambda>cfg. Inl (ExternalError ''bad config''))\<rparr>"

definition ex_env_no_watch :: env where
  "ex_env_no_watch = ex_env\<lparr>e_Watch := (\<lambda>i. Some (ExternalError ''controller not started''))\<rparr>"

definition ex_informer :: informer where
  "ex_informer = NodeInformer (K8sClient ''c1'')"

definition ex_reconciler_watching :: Reconciler where
  "ex_reconciler_watching = storeInformer ex_reconciler (watchKey ex_cluster) ex_informer"

definition ex_env_starting :: env where
  "ex_env_starting =
     ex_env\<lparr>e_getTargetsFromMHC :=
       (\<lambda>cc c m. Inr [ex_target_starting 1405000000000, ex_target_healthy,
                        ex_target_starting 1412000000000, ex_target_starting 1403000000000])\<rparr>"

definition ex_env_no_helper :: env where
  "ex_env_no_helper = ex_env\<lparr>e_NewHelper := (\<lambda>m. Some (ExternalError ''cannot convert object''))\<rparr>"

definition ex_env_no_cluster :: env where
  "ex_env_no_cluster = ex_env\<lparr>e_GetClusterByName := (\<lambda>ns name. Inl (StatusNotFound name))\<rparr>"

definition ex_env_paused :: env where
  "ex_env_paused =
     ex_env\<lparr>e_GetClusterByName := (\<lambda>ns name. Inr (ex_cluster\<lparr>c_Paused := True\<rparr>))\<rparr>"

definition ex_env_patch_fails :: env where
  "ex_env_patch_fails =
     ex_env_no_config\<lparr>e_Patch := (\<lambda>before m. Some (ExternalError ''conflict''))\<rparr>"

text \<open>More targets than an \<^verbatim>\<open>int32\<close> counts.\<close>

definition ex_many :: nat where
  "ex_many = 2 ^ 31"

definition ex_env_many :: env where
  "ex_env_many =
     ex_env\<lparr>e_getTargetsFromMHC := (\<lambda>cc c m. Inr (replicate ex_many ex_target_no_node_old))\<rparr>"

text \<open>The policy object as \<^verbatim>\<open>Reconcile\<close> has labelled and owned it, and with the
  status counters of the passes in the environments above.\<close>

definition ex_mhc_reconciled :: "env \<Rightarrow> MachineHealthCheck" where
  "ex_mhc_reconciled e = ensureClusterOwnerRef e ex_cluster (reconcileLabels ex_mhc)"

definition ex_mhc_patched :: MachineHealthCheck where
  "ex_mhc_patched =
     (ex_mhc_reconciled ex_env)\<lparr>mhc_ExpectedMachines := 2, mhc_CurrentHealthy := 1\<rparr>"

definition ex_mhc_many :: MachineHealthCheck where
  "ex_mhc_many =
     (ex_mhc_reconciled ex_env_many)
       \<lparr>mhc_ExpectedMachines := of_nat ex_many, mhc_CurrentHealthy := 0\<rparr>"

section \<open>Selector matching and event routing\<close>

lemma std_parse_no_requirements:
  "ls_MatchLabels ps = [] \<Longrightarrow> ls_MatchExpressions ps = [] \<Longrightarrow>
   LabelSelectorAsSelector std_labels ps = Inr [] \<and> sel_Empty std_labels []"
  by (simp add: std_labels_def std_LabelSelectorAsSelector_def)

text \<open>
  Claim C2.  Whatever the selector library does: when the policy's selector fails to parse,
  or parses to a selector that reports itself empty, \<^verbatim>\<open>hasMatchingLabels\<close>
  is false for every machine.  With the standard library, a selector without match labels
  and match expressions is such a selector, so it matches no machine.
\<close>

theorem hasMatchingLabels_empty_or_unparseable:
  "(LabelSelectorAsSelector lib (mhc_Selector mhc) = Inl e \<longrightarrow>
      \<not> hasMatchingLabels lib mhc machine) \<and>
   (LabelSelectorAsSelector lib (mhc_Selector mhc) = Inr s \<and> sel_Empty lib s \<longrightarrow>
      \<not> hasMatchingLabels lib mhc machine) \<and>
   (ls_MatchLabels (mhc_Selector mhc) = [] \<and> ls_MatchExpressions (mhc_Selector mhc) = [] \<longrightarrow>
      \<not> hasMatchingLabels std_labels mhc machine)"
proof (intro conjI impI)
  assume "LabelSelectorAsSelector lib (mhc_Selector mhc) = Inl e"
  then show "\<not> hasMatchingLabels lib mhc machine"
    by (simp add: hasMatchingLabels_def)
next
  assume "LabelSelectorAsSelector lib (mhc_Selector mhc) = Inr s \<and> sel_Empty lib s"
  then show "\<not> hasMatchingLabels lib mhc machine"
    by (simp add: hasMatchingLabels_def)
next
  assume "ls_MatchLabels (mhc_Selector mhc) = [] \<and> ls_MatchExpressions (mhc_Selector mhc) = []"
  then have "LabelSelectorAsSelector std_labels (mhc_Selector mhc) = Inr [] \<and>
      sel_Empty std_labels []"
    using std_parse_no_requirements [of "mhc_Selector mhc"] by blast
  then show "\<not> hasMatchingLabels std_labels mhc machine"
    by (simp add: hasMatchingLabels_def)
qed

lemma std_parse_bad:
  "LabelSelectorAsSelector std_labels (mhc_Selector ex_mhc_bad) =
     Inl (ExternalError ''Bogus is not a valid pod selector operator'')"
  by (simp add: std_labels_def std_LabelSelectorAsSelector_def ex_mhc_bad_def ex_mhc_def parseOperator_def)

lemma std_parse_empty:
  "LabelSelectorAsSelector std_labels (mhc_Selector ex_mhc_empty) = Inr []"
  by (simp add: std_labels_def std_LabelSelectorAsSelector_def ex_mhc_empty_def ex_mhc_def)

lemma std_match_ex: "hasMatchingLabels std_labels ex_mhc ex_machine"
  by (simp add: hasMatchingLabels_def std_labels_def std_LabelSelectorAsSelector_def ex_mhc_def
      ex_machine_def NewRequirement_def)

theorem hasMatchingLabels_empty_or_unparseable_witness:
  "LabelSelectorAsSelector std_labels (mhc_Selector ex_mhc_bad) =
     Inl (ExternalError ''Bogus is not a valid pod selector operator'') \<and>
   \<not> hasMatchingLabels std_labels ex_mhc_bad ex_machine \<and>
   LabelSelectorAsSelector std_labels (mhc_Selector ex_mhc_empty) = Inr [] \<and>
   sel_Empty std_labels [] \<and>
   ls_MatchLabels (mhc_Selector ex_mhc_empty) = [] \<and>
   ls_MatchExpressions (mhc_Selector ex_mhc_empty) = [] \<and>
   \<not> hasMatchingLabels std_labels ex_mhc_empty ex_machine \<and>
   hasMatchingLabels std_labels ex_mhc ex_machine"
proof -
  have empty: "sel_Empty std_labels []"
    by (simp add: std_labels_def)
  have fields: "ls_MatchLabels (mhc_Selector ex_mhc_empty) = []"
    "ls_MatchExpressions (mhc_Selector ex_mhc_empty) = []"
    by (simp_all add: ex_mhc_empty_def)
  have bad: "\<not> hasMatchingLabels std_labels ex_mhc_bad ex_machine"
    using hasMatchingLabels_empty_or_unparseable
            [of std_labels ex_mhc_bad "ExternalError ''Bogus is not a valid pod selector operator''"
                ex_machine "[]"]
          std_parse_bad
    by blast
  have none: "\<not> hasMatchingLabels std_labels ex_mhc_empty ex_machine"
    using hasMatchingLabels_empty_or_unparseable
            [of std_labels ex_mhc_empty IncorrectType ex_machine "[]"]
          std_parse_empty empty fields
    by blast
  show ?thesis
    by (intro conjI std_parse_bad bad std_parse_empty empty fields none std_match_ex)
qed

lemma ListMachines_nodeName:
  "e_ListMachines_err e = None \<Longrightarrow>
   ListMachines e [] (machineNodeNameIndex, n) =
     Inr (filter (\<lambda>m. case m_NodeRef m of None \<Rightarrow> False | Some r \<Rightarrow> ref_Name r = n)
            (e_machines e))"
  unfolding ListMachines_def machineIndexField_def indexMachineByNodeName_def
  by (auto intro!: filter_cong split: option.splits)

lemma ListMachineHealthChecks_clusterName:
  "e_ListMHCs_err e = None \<Longrightarrow>
   ListMachineHealthChecks e ns (mhcClusterNameIndex, c) =
     Inr (filter (\<lambda>mhc. (ns = [] \<or> mhc_Namespace mhc = ns) \<and> mhc_ClusterName mhc = c)
            (e_mhcs e))"
  unfolding ListMachineHealthChecks_def mhcIndexField_def indexMachineHealthCheckByClusterName_def
  by (auto intro!: filter_cong)

lemma matchingRequests_filter:
  "matchingRequests lib m items =
     map (\<lambda>mhc. Request \<lparr>nn_Namespace = mhc_Namespace mhc, nn_Name = mhc_Name mhc\<rparr>)
       (filter (\<lambda>mhc. hasMatchingLabels lib mhc m) items)"
  by (induction items) simp_all

lemma getMachineFromNode_one:
  "ListMachines e [] (machineNodeNameIndex, n) = Inr [machine] \<Longrightarrow>
   getMachineFromNode e n = Inr machine"
  by (simp add: getMachineFromNode_def)

lemma getMachineFromNode_not_one:
  "ListMachines e [] (machineNodeNameIndex, n) = Inr items \<Longrightarrow> length items \<noteq> 1 \<Longrightarrow>
   getMachineFromNode e n = Inl (ExpectingOneMachine n items)"
  by (cases items rule: list.exhaust; cases "tl items") (auto simp: getMachineFromNode_def)

text \<open>
  Claim C3.  A node event first looks the machine up by the node-name index.  When the
  lookup lists exactly one machine, the requests are those of the machine-to-policies
  mapping for that machine: the policies of the machine's namespace whose cluster-name
  index entry is the machine's cluster and whose selector matches the machine.  When the
  lookup lists no machine or more than one, the error is logged and no request is
  returned.
\<close>

theorem nodeToMachineHealthCheck_routing:
  "(ListMachines e [] (machineNodeNameIndex, n_Name node) = Inr [machine] \<longrightarrow>
      getMachineFromNode e (n_Name node) = Inr machine \<and>
      fst (nodeToMachineHealthCheck lib e (ObjNode node)) =
        fst (machineToMachineHealthCheck lib e (ObjMachine machine)) \<and>
      (e_ListMHCs_err e = None \<longrightarrow>
         nodeToMachineHealthCheck lib e (ObjNode node) =
           (map (\<lambda>mhc. Request \<lparr>nn_Namespace = mhc_Namespace mhc, nn_Name = mhc_Name mhc\<rparr>)
              (filter (\<lambda>mhc. hasMatchingLabels lib mhc machine)
                 (filter (\<lambda>mhc. (m_Namespace machine = [] \<or> mhc_Namespace mhc = m_Namespace machine) \<and>
                            mhc_ClusterName mhc = m_ClusterName machine)
                    (e_mhcs e))), []))) \<and>
   (ListMachines e [] (machineNodeNameIndex, n_Name node) = Inr items \<and> length items \<noteq> 1 \<longrightarrow>
      nodeToMachineHealthCheck lib e (ObjNode node) =
        ([], [LogError (ExpectingOneMachine (n_Name node) items)
                ''Unable to retrieve machine from node''
                [(''node'', nnString (namespacedName (n_Namespace node) (n_Name node)))]]))"
proof (intro conjI impI)
  assume one: "ListMachines e [] (machineNodeNameIndex, n_Name node) = Inr [machine]"
  then show g: "getMachineFromNode e (n_Name node) = Inr machine"
    by (rule getMachineFromNode_one)
  show "fst (nodeToMachineHealthCheck lib e (ObjNode node)) =
        fst (machineToMachineHealthCheck lib e (ObjMachine machine))"
    by (simp add: nodeToMachineHealthCheck_def machineToMachineHealthCheck_def g split: sum.splits)
  assume "e_ListMHCs_err e = None"
  then show "nodeToMachineHealthCheck lib e (ObjNode node) =
           (map (\<lambda>mhc. Request \<lparr>nn_Namespace = mhc_Namespace mhc, nn_Name = mhc_Name mhc\<rparr>)
              (filter (\<lambda>mhc. hasMatchingLabels lib mhc machine)
                 (filter (\<lambda>mhc. (m_Namespace machine = [] \<or> mhc_Namespace mhc = m_Namespace machine) \<and>
                            mhc_ClusterName mhc = m_ClusterName machine)
                    (e_mhcs e))), [])"
    by (simp only: nodeToMachineHealthCheck_def g ListMachineHealthChecks_clusterName
          matchingRequests_filter Object.case sum.case)
next
  assume "ListMachines e [] (machineNodeNameIndex, n_Name node) = Inr items \<and> length items \<noteq> 1"
  then have "getMachineFromNode e (n_Name node) = Inl (ExpectingOneMachine (n_Name node) items)"
    by (simp add: getMachineFromNode_not_one)
  then show "nodeToMachineHealthCheck lib e (ObjNode node) =
        ([], [LogError (ExpectingOneMachine (n_Name node) items)
                ''Unable to retrieve machine from node''
                [(''node'', nnString (namespacedName (n_Namespace node) (n_Name node)))]])"
    by (simp add: nodeToMachineHealthCheck_def)
qed

lemma ex_ListMachines:
  "ListMachines ex_env [] (machineNodeNameIndex, n_Name ex_node) = Inr [ex_machine]"
  by (simp add: ListMachines_nodeName ex_env_def ex_node_def ex_machine_def)

lemma ex_ListMachines_two:
  "ListMachines ex_env_two [] (machineNodeNameIndex, n_Name ex_node) =
     Inr [ex_machine, ex_machine_other_ns]"
  by (simp add: ListMachines_nodeName ex_env_two_def ex_env_def ex_node_def ex_machine_def
      ex_machine_other_ns_def)

lemma ex_hasMatchingLabels_bad: "\<not> hasMatchingLabels std_labels ex_mhc_bad ex_machine"
  by (simp add: hasMatchingLabels_def std_parse_bad)

lemma ex_hasMatchingLabels_empty: "\<not> hasMatchingLabels std_labels ex_mhc_empty ex_machine"
  by (simp add: hasMatchingLabels_def std_parse_empty) (simp add: std_labels_def)

lemma ex_mhcs_filter:
  "filter (\<lambda>mhc. hasMatchingLabels std_labels mhc ex_machine)
     (filter (\<lambda>mhc. (m_Namespace ex_machine = [] \<or> mhc_Namespace mhc = m_Namespace ex_machine) \<and>
                mhc_ClusterName mhc = m_ClusterName ex_machine)
        (e_mhcs ex_env)) = [ex_mhc]"
proof -
  have "filter (\<lambda>mhc. (m_Namespace ex_machine = [] \<or> mhc_Namespace mhc = m_Namespace ex_machine) \<and>
                mhc_ClusterName mhc = m_ClusterName ex_machine)
        (e_mhcs ex_env) = [ex_mhc, ex_mhc_empty, ex_mhc_bad]"
    by (simp add: ex_env_def ex_machine_def ex_mhc_def ex_mhc_empty_def ex_mhc_bad_def)
  then show ?thesis
    by (simp add: std_match_ex ex_hasMatchingLabels_bad ex_hasMatchingLabels_empty)
qed

theorem nodeToMachineHealthCheck_routing_witness:
  "ListMachines ex_env [] (machineNodeNameIndex, n_Name ex_node) = Inr [ex_machine] \<and>
   e_ListMHCs_err ex_env = None \<and>
   nodeToMachineHealthCheck std_labels ex_env (ObjNode ex_node) =
     ([Request \<lparr>nn_Namespace = ''ns1'', nn_Name = ''mhc1''\<rparr>], []) \<and>
   fst (machineToMachineHealthCheck std_labels ex_env (ObjMachine ex_machine)) =
     [Request \<lparr>nn_Namespace = ''ns1'', nn_Name = ''mhc1''\<rparr>] \<and>
   ListMachines ex_env_two [] (machineNodeNameIndex, n_Name ex_node) =
     Inr [ex_machine, ex_machine_other_ns] \<and>
   length [ex_machine, ex_machine_other_ns] \<noteq> 1 \<and>
   nodeToMachineHealthCheck std_labels ex_env_two (ObjNode ex_node) =
     ([], [LogError (ExpectingOneMachine ''n1'' [ex_machine, ex_machine_other_ns])
             ''Unable to retrieve machine from node'' [(''node'', ''/n1'')]])"
proof -
  have err: "e_ListMHCs_err ex_env = None"
    by (simp add: ex_env_def)
  have name: "mhc_Namespace ex_mhc = ''ns1''" "mhc_Name ex_mhc = ''mhc1''"
    by (simp_all add: ex_mhc_def)
  have node: "n_Name ex_node = ''n1''" "n_Namespace ex_node = []"
    by (simp_all add: ex_node_def)
  let ?reqs = "map (\<lambda>mhc. Request \<lparr>nn_Namespace = mhc_Namespace mhc, nn_Name = mhc_Name mhc\<rparr>)
      (filter (\<lambda>mhc. hasMatchingLabels std_labels mhc ex_machine)
         (filter (\<lambda>mhc. (m_Namespace ex_machine = [] \<or> mhc_Namespace mhc = m_Namespace ex_machine) \<and>
                    mhc_ClusterName mhc = m_ClusterName ex_machine)
            (e_mhcs ex_env)))"
  have same: "fst (nodeToMachineHealthCheck std_labels ex_env (ObjNode ex_node)) =
      fst (machineToMachineHealthCheck std_labels ex_env (ObjMachine ex_machine))"
    and reqs: "nodeToMachineHealthCheck std_labels ex_env (ObjNode ex_node) = (?reqs, [])"
    using nodeToMachineHealthCheck_routing
            [of ex_env ex_node ex_machine std_labels "[ex_machine, ex_machine_other_ns]"]
          ex_ListMachines err
    by blast+
  have two: "nodeToMachineHealthCheck std_labels ex_env_two (ObjNode ex_node) =
      ([], [LogError (ExpectingOneMachine (n_Name ex_node) [ex_machine, ex_machine_other_ns])
              ''Unable to retrieve machine from node''
              [(''node'', nnString (namespacedName (n_Namespace ex_node) (n_Name ex_node)))]])"
    using nodeToMachineHealthCheck_routing
            [of ex_env_two ex_node ex_machine std_labels "[ex_machine, ex_machine_other_ns]"]
          ex_ListMachines_two
    by simp
  have val: "?reqs = [Request \<lparr>nn_Namespace = ''ns1'', nn_Name = ''mhc1''\<rparr>]"
    by (simp only: ex_mhcs_filter) (simp add: name)
  have "fst (machineToMachineHealthCheck std_labels ex_env (ObjMachine ex_machine)) =
      [Request \<lparr>nn_Namespace = ''ns1'', nn_Name = ''mhc1''\<rparr>]"
    using same reqs val by simp
  moreover have "nodeToMachineHealthCheck std_labels ex_env (ObjNode ex_node) =
      ([Request \<lparr>nn_Namespace = ''ns1'', nn_Name = ''mhc1''\<rparr>], [])"
    using reqs val by simp
  ultimately show ?thesis
    using two ex_ListMachines ex_ListMachines_two err
    by (simp add: node nnString_def namespacedName_def)
qed

lemma filter_two_not_single:
  assumes "a \<in> set xs" "b \<in> set xs" "a \<noteq> b" "P a" "P b"
  shows "length (filter P xs) \<noteq> 1"
proof
  assume "length (filter P xs) = 1"
  then obtain x where "filter P xs = [x]"
    by (cases "filter P xs") auto
  moreover have "a \<in> set (filter P xs)" "b \<in> set (filter P xs)"
    using assms by simp_all
  ultimately show False
    using \<open>a \<noteq> b\<close> by simp
qed

text \<open>
  Claim C10.  The lookup by node name lists the machines of every namespace.  When two
  machines of different namespaces refer to the node, both are among the listed machines,
  the lookup returns the not-exactly-one error and the node event yields no request.
\<close>

theorem getMachineFromNode_all_namespaces:
  assumes "e_ListMachines_err e = None"
    and "m1 \<in> set (e_machines e)" and "m2 \<in> set (e_machines e)"
    and "m_Namespace m1 \<noteq> m_Namespace m2"
    and "m_NodeRef m1 = Some r1" and "ref_Name r1 = n_Name node"
    and "m_NodeRef m2 = Some r2" and "ref_Name r2 = n_Name node"
  shows "\<exists>items.
           items = filter (\<lambda>m. case m_NodeRef m of None \<Rightarrow> False
                               | Some r \<Rightarrow> ref_Name r = n_Name node) (e_machines e) \<and>
           m1 \<in> set items \<and> m2 \<in> set items \<and>
           getMachineFromNode e (n_Name node) = Inl (ExpectingOneMachine (n_Name node) items) \<and>
           fst (nodeToMachineHealthCheck lib e (ObjNode node)) = []"
proof -
  let ?P = "\<lambda>m. case m_NodeRef m of None \<Rightarrow> False | Some r \<Rightarrow> ref_Name r = n_Name node"
  let ?items = "filter ?P (e_machines e)"
  have list: "ListMachines e [] (machineNodeNameIndex, n_Name node) = Inr ?items"
    using assms(1) by (rule ListMachines_nodeName)
  have P: "?P m1" "?P m2"
    using assms by simp_all
  have "m1 \<noteq> m2"
    using assms(4) by auto
  then have "length ?items \<noteq> 1"
    using filter_two_not_single [of m1 "e_machines e" m2 ?P] assms(2,3) P by blast
  then have get: "getMachineFromNode e (n_Name node) = Inl (ExpectingOneMachine (n_Name node) ?items)"
    using list by (rule getMachineFromNode_not_one [rotated])
  have "fst (nodeToMachineHealthCheck lib e (ObjNode node)) = []"
    by (simp add: nodeToMachineHealthCheck_def get)
  moreover have "m1 \<in> set ?items" "m2 \<in> set ?items"
    using assms(2,3) P by simp_all
  ultimately show ?thesis
    using get by blast
qed

theorem getMachineFromNode_all_namespaces_witness:
  "e_ListMachines_err ex_env_two = None \<and>
   ex_machine \<in> set (e_machines ex_env_two) \<and>
   ex_machine_other_ns \<in> set (e_machines ex_env_two) \<and>
   m_Namespace ex_machine = ''ns1'' \<and> m_Namespace ex_machine_other_ns = ''ns2'' \<and>
   m_NodeRef ex_machine = Some \<lparr>ref_Kind = ''Node'', ref_Namespace = '''', ref_Name = ''n1''\<rparr> \<and>
   m_NodeRef ex_machine_other_ns =
     Some \<lparr>ref_Kind = ''Node'', ref_Namespace = '''', ref_Name = ''n1''\<rparr> \<and>
   n_Name ex_node = ''n1'' \<and>
   getMachineFromNode ex_env_two ''n1'' =
     Inl (ExpectingOneMachine ''n1'' [ex_machine, ex_machine_other_ns]) \<and>
   fst (nodeToMachineHealthCheck std_labels ex_env_two (ObjNode ex_node)) = []"
proof -
  have a: "e_ListMachines_err ex_env_two = None"
    and b: "ex_machine \<in> set (e_machines ex_env_two)"
    and c: "ex_machine_other_ns \<in> set (e_machines ex_env_two)"
    by (simp_all add: ex_env_two_def ex_env_def)
  have d: "m_Namespace ex_machine = ''ns1''" "m_Namespace ex_machine_other_ns = ''ns2''"
    by (simp_all add: ex_machine_def ex_machine_other_ns_def)
  then have d': "m_Namespace ex_machine \<noteq> m_Namespace ex_machine_other_ns"
    by simp
  define r where "r = \<lparr>ref_Kind = ''Node'', ref_Namespace = '''', ref_Name = ''n1''\<rparr>"
  have f: "m_NodeRef ex_machine = Some r" "m_NodeRef ex_machine_other_ns = Some r"
    and g: "ref_Name r = n_Name ex_node"
    by (simp_all add: ex_machine_def ex_machine_other_ns_def ex_node_def r_def)
  have n: "n_Name ex_node = ''n1''"
    by (simp add: ex_node_def)
  have items: "filter (\<lambda>m. case m_NodeRef m of None \<Rightarrow> False | Some r \<Rightarrow> ref_Name r = n_Name ex_node)
      (e_machines ex_env_two) = [ex_machine, ex_machine_other_ns]"
    by (simp add: ex_env_two_def ex_env_def f g)
  have "getMachineFromNode ex_env_two (n_Name ex_node) =
      Inl (ExpectingOneMachine (n_Name ex_node) [ex_machine, ex_machine_other_ns]) \<and>
    fst (nodeToMachineHealthCheck std_labels ex_env_two (ObjNode ex_node)) = []"
    using getMachineFromNode_all_namespaces [OF a b c d' f(1) g f(2) g, of std_labels]
    unfolding items by simp
  then show ?thesis
    using a b c d f n by (simp add: r_def)
qed

section \<open>The cluster watch registry\<close>

lemma watchClusterNodes_registered:
  "informerFor r (watchKey cluster) = Some i \<Longrightarrow> watchClusterNodes e r cluster = (None, r, [])"
  by (simp add: watchClusterNodes_def)

lemma watchClusterNodes_cases:
  "watchClusterNodes e r cluster = (res, r1, evs) \<Longrightarrow>
   (res = None \<and> r1 = r \<and> evs = [] \<and> informerFor r (watchKey cluster) \<noteq> None) \<or>
   (\<exists>x. res = Some x \<and> r1 = r \<and> informerFor r (watchKey cluster) = None) \<or>
   (\<exists>config k8sClient.
      informerFor r (watchKey cluster) = None \<and>
      e_RESTConfig e cluster = Inr config \<and> e_NewForConfig e config = Inr k8sClient \<and>
      e_Watch e (NodeInformer k8sClient) = None \<and>
      res = None \<and> r1 = storeInformer r (watchKey cluster) (NodeInformer k8sClient) \<and>
      evs = [CallRESTConfig cluster, CallNewForConfig config,
             InformerRun (NodeInformer k8sClient), CallWatch (NodeInformer k8sClient)])"
  by (auto simp: watchClusterNodes_def Let_def split: option.splits sum.splits)

lemma informerFor_storeInformer:
  "informerFor (storeInformer r key i) key = Some i"
  by (simp add: informerFor_def storeInformer_def)

lemma storeInformer_changes:
  "informerFor r key = None \<Longrightarrow> storeInformer r key i \<noteq> r"
  using informerFor_storeInformer [of r key i] by auto

text \<open>
  Claim C7.  \<^verbatim>\<open>watchClusterNodes\<close> returns nil and leaves the reconciler as it
  is, doing nothing, when the cluster's key has an informer.  When it returns an error the
  reconciler is as before; the error is the wrapped error of the remote config, of the
  client construction or of the watch, whichever failed.  When the reconciler has changed,
  the config and the client were built, the informer and the watch were started without
  error, and the change is the new informer stored under the key.
\<close>

theorem watchClusterNodes_registry:
  "(informerFor r (watchKey cluster) = Some i \<longrightarrow>
      watchClusterNodes e r cluster = (None, r, [])) \<and>
   (fst (watchClusterNodes e r cluster) = Some x \<longrightarrow>
      fst (snd (watchClusterNodes e r cluster)) = r) \<and>
   (informerFor r (watchKey cluster) = None \<and> e_RESTConfig e cluster = Inl y \<longrightarrow>
      fst (watchClusterNodes e r cluster) = Some (Wrap y ''error fetching remote cluster config'')) \<and>
   (informerFor r (watchKey cluster) = None \<and> e_RESTConfig e cluster = Inr config \<and>
    e_NewForConfig e config = Inl y \<longrightarrow>
      fst (watchClusterNodes e r cluster) =
        Some (Wrap y ''error constructing remote cluster client'')) \<and>
   (informerFor r (watchKey cluster) = None \<and> e_RESTConfig e cluster = Inr config \<and>
    e_NewForConfig e config = Inr k8sClient \<and> e_Watch e (NodeInformer k8sClient) = Some y \<longrightarrow>
      fst (watchClusterNodes e r cluster) =
        Some (Wrap y ''error watching nodes on target cluster'')) \<and>
   (fst (snd (watchClusterNodes e r cluster)) \<noteq> r \<longrightarrow>
      (\<exists>cfg client.
         informerFor r (watchKey cluster) = None \<and>
         e_RESTConfig e cluster = Inr cfg \<and> e_NewForConfig e cfg = Inr client \<and>
         e_Watch e (NodeInformer client) = None \<and>
         watchClusterNodes e r cluster =
           (None, storeInformer r (watchKey cluster) (NodeInformer client),
            [CallRESTConfig cluster, CallNewForConfig cfg,
             InformerRun (NodeInformer client), CallWatch (NodeInformer client)])))"
proof (intro conjI impI)
  assume "informerFor r (watchKey cluster) = Some i"
  then show "watchClusterNodes e r cluster = (None, r, [])"
    by (rule watchClusterNodes_registered)
next
  assume "fst (watchClusterNodes e r cluster) = Some x"
  then show "fst (snd (watchClusterNodes e r cluster)) = r"
    using watchClusterNodes_cases [of e r cluster] by (cases "watchClusterNodes e r cluster") auto
next
  assume "informerFor r (watchKey cluster) = None \<and> e_RESTConfig e cluster = Inl y"
  then show "fst (watchClusterNodes e r cluster) =
      Some (Wrap y ''error fetching remote cluster config'')"
    by (simp add: watchClusterNodes_def)
next
  assume "informerFor r (watchKey cluster) = None \<and> e_RESTConfig e cluster = Inr config \<and>
    e_NewForConfig e config = Inl y"
  then show "fst (watchClusterNodes e r cluster) =
      Some (Wrap y ''error constructing remote cluster client'')"
    by (simp add: watchClusterNodes_def)
next
  assume "informerFor r (watchKey cluster) = None \<and> e_RESTConfig e cluster = Inr config \<and>
    e_NewForConfig e config = Inr k8sClient \<and> e_Watch e (NodeInformer k8sClient) = Some y"
  then show "fst (watchClusterNodes e r cluster) =
      Some (Wrap y ''error watching nodes on target cluster'')"
    by (simp add: watchClusterNodes_def Let_def)
next
  assume "fst (snd (watchClusterNodes e r cluster)) \<noteq> r"
  then show "\<exists>cfg client.
         informerFor r (watchKey cluster) = None \<and>
         e_RESTConfig e cluster = Inr cfg \<and> e_NewForConfig e cfg = Inr client \<and>
         e_Watch e (NodeInformer client) = None \<and>
         watchClusterNodes e r cluster =
           (None, storeInformer r (watchKey cluster) (NodeInformer client),
            [CallRESTConfig cluster, CallNewForConfig cfg,
             InformerRun (NodeInformer client), CallWatch (NodeInformer client)])"
    using watchClusterNodes_cases [of e r cluster] by (cases "watchClusterNodes e r cluster") auto
qed

text \<open>
  Claim C9.  The key has the cluster's name as namespace and as name.  So for two clusters
  of the same name, whatever their namespaces: once \<^verbatim>\<open>watchClusterNodes\<close> has
  returned nil for the first, the key of the second has an informer, and the call for the
  second returns nil, changes nothing and does nothing.
\<close>

theorem watchClusterNodes_key_ignores_namespace:
  assumes "c_Name c1 = c_Name c2"
    and "watchClusterNodes e r c1 = (None, r1, evs)"
  shows "watchKey c1 = \<lparr>nn_Namespace = c_Name c1, nn_Name = c_Name c1\<rparr> \<and>
         watchKey c2 = watchKey c1 \<and>
         informerFor r1 (watchKey c2) \<noteq> None \<and>
         watchClusterNodes e2 r1 c2 = (None, r1, [])"
proof -
  have key: "watchKey c2 = watchKey c1"
    using assms(1) by (simp add: watchKey_def)
  have "informerFor r1 (watchKey c1) \<noteq> None"
    using watchClusterNodes_cases [OF assms(2)] by (auto simp: informerFor_storeInformer)
  then obtain i where i: "informerFor r1 (watchKey c2) = Some i"
    using key by auto
  then have "watchClusterNodes e2 r1 c2 = (None, r1, [])"
    by (rule watchClusterNodes_registered)
  then show ?thesis
    using key i by (simp add: watchKey_def)
qed

text \<open>The three steps of an invocation, run without interruption, are
  \<^verbatim>\<open>watchClusterNodes\<close>.\<close>

lemma watch_alone_eq:
  "watch_alone e cluster r =
     (case watchClusterNodes e r cluster of (res, r1, evs) \<Rightarrow> (Returned res, r1, evs))"
  by (simp add: watch_alone_def watch_step_def watchClusterNodes_def Let_def
      split: option.splits sum.splits)


lemma ex_env_calls:
  "e_RESTConfig ex_env c = Inr (RESTConfig (c_Name c))"
  "e_NewForConfig ex_env (RESTConfig s) = Inr (K8sClient s)"
  "e_Watch ex_env i = None"
  by (simp_all add: ex_env_def)

lemma ex_informerFor_none: "informerFor ex_reconciler key = None"
  by (simp add: informerFor_def ex_reconciler_def)

lemma ex_informerFor_watching:
  "informerFor ex_reconciler_watching (watchKey ex_cluster) = Some ex_informer"
  by (simp add: ex_reconciler_watching_def informerFor_storeInformer)

lemma ex_cluster_name: "c_Name ex_cluster = ''c1''" "c_Name ex_cluster_other_ns = ''c1''"
  by (simp_all add: ex_cluster_def ex_cluster_other_ns_def)

lemma ex_watch_new:
  "watchClusterNodes ex_env ex_reconciler ex_cluster =
     (None, ex_reconciler_watching,
      [CallRESTConfig ex_cluster, CallNewForConfig (RESTConfig ''c1''),
       InformerRun ex_informer, CallWatch ex_informer])"
  by (simp add: watchClusterNodes_def ex_informerFor_none ex_env_calls ex_cluster_name
      ex_reconciler_watching_def ex_informer_def Let_def)

theorem watchClusterNodes_registry_witness:
  "informerFor ex_reconciler_watching (watchKey ex_cluster) = Some ex_informer \<and>
   watchClusterNodes ex_env ex_reconciler_watching ex_cluster = (None, ex_reconciler_watching, []) \<and>
   watchClusterNodes ex_env_no_config ex_reconciler ex_cluster =
     (Some (Wrap (ExternalError ''no kubeconfig secret'') ''error fetching remote cluster config''),
      ex_reconciler, [CallRESTConfig ex_cluster]) \<and>
   watchClusterNodes ex_env_no_client ex_reconciler ex_cluster =
     (Some (Wrap (ExternalError ''bad config'') ''error constructing remote cluster client''),
      ex_reconciler, [CallRESTConfig ex_cluster, CallNewForConfig (RESTConfig ''c1'')]) \<and>
   watchClusterNodes ex_env_no_watch ex_reconciler ex_cluster =
     (Some (Wrap (ExternalError ''controller not started'') ''error watching nodes on target cluster''),
      ex_reconciler,
      [CallRESTConfig ex_cluster, CallNewForConfig (RESTConfig ''c1''),
       InformerRun ex_informer, CallWatch ex_informer]) \<and>
   ex_reconciler_watching \<noteq> ex_reconciler \<and>
   watchClusterNodes ex_env ex_reconciler ex_cluster =
     (None, ex_reconciler_watching,
      [CallRESTConfig ex_cluster, CallNewForConfig (RESTConfig ''c1''),
       InformerRun ex_informer, CallWatch ex_informer])"
proof -
  have changed: "ex_reconciler_watching \<noteq> ex_reconciler"
    unfolding ex_reconciler_watching_def
    by (rule storeInformer_changes) (rule ex_informerFor_none)
  have no_config: "watchClusterNodes ex_env_no_config ex_reconciler ex_cluster =
     (Some (Wrap (ExternalError ''no kubeconfig secret'') ''error fetching remote cluster config''),
      ex_reconciler, [CallRESTConfig ex_cluster])"
    by (simp add: watchClusterNodes_def ex_informerFor_none ex_env_no_config_def)
  have no_client: "watchClusterNodes ex_env_no_client ex_reconciler ex_cluster =
     (Some (Wrap (ExternalError ''bad config'') ''error constructing remote cluster client''),
      ex_reconciler, [CallRESTConfig ex_cluster, CallNewForConfig (RESTConfig ''c1'')])"
    by (simp add: watchClusterNodes_def ex_informerFor_none ex_env_no_client_def ex_env_def
        ex_cluster_name)
  have no_watch: "watchClusterNodes ex_env_no_watch ex_reconciler ex_cluster =
     (Some (Wrap (ExternalError ''controller not started'') ''error watching nodes on target cluster''),
      ex_reconciler,
      [CallRESTConfig ex_cluster, CallNewForConfig (RESTConfig ''c1''),
       InformerRun ex_informer, CallWatch ex_informer])"
    by (simp add: watchClusterNodes_def ex_informerFor_none ex_env_no_watch_def ex_env_def
        ex_cluster_name ex_informer_def Let_def)
  have registered: "watchClusterNodes ex_env ex_reconciler_watching ex_cluster =
      (None, ex_reconciler_watching, [])"
    using watchClusterNodes_registry
            [of ex_reconciler_watching ex_cluster ex_informer ex_env]
          ex_informerFor_watching
    by blast
  have kept: "fst (snd (watchClusterNodes ex_env_no_config ex_reconciler ex_cluster)) = ex_reconciler"
    using watchClusterNodes_registry
            [of ex_reconciler ex_cluster _ ex_env_no_config
                "Wrap (ExternalError ''no kubeconfig secret'') ''error fetching remote cluster config''"]
          no_config
    by simp
  have started: "\<exists>cfg client.
      watchClusterNodes ex_env ex_reconciler ex_cluster =
        (None, storeInformer ex_reconciler (watchKey ex_cluster) (NodeInformer client),
         [CallRESTConfig ex_cluster, CallNewForConfig cfg,
          InformerRun (NodeInformer client), CallWatch (NodeInformer client)])"
    using watchClusterNodes_registry [of ex_reconciler ex_cluster _ ex_env] ex_watch_new changed
    by (metis fst_conv snd_conv)
  show ?thesis
    using registered kept started changed no_config no_client no_watch ex_watch_new
          ex_informerFor_watching
    by simp
qed

theorem watchClusterNodes_key_ignores_namespace_witness:
  "c_Name ex_cluster = c_Name ex_cluster_other_ns \<and>
   c_Namespace ex_cluster = ''ns1'' \<and> c_Namespace ex_cluster_other_ns = ''ns2'' \<and>
   watchClusterNodes ex_env ex_reconciler ex_cluster =
     (None, ex_reconciler_watching,
      [CallRESTConfig ex_cluster, CallNewForConfig (RESTConfig ''c1''),
       InformerRun ex_informer, CallWatch ex_informer]) \<and>
   watchKey ex_cluster_other_ns = \<lparr>nn_Namespace = ''c1'', nn_Name = ''c1''\<rparr> \<and>
   watchClusterNodes ex_env ex_reconciler_watching ex_cluster_other_ns =
     (None, ex_reconciler_watching, [])"
proof -
  have names: "c_Name ex_cluster = c_Name ex_cluster_other_ns"
    by (simp add: ex_cluster_name)
  have "watchKey ex_cluster_other_ns = watchKey ex_cluster \<and>
        watchClusterNodes ex_env ex_reconciler_watching ex_cluster_other_ns =
          (None, ex_reconciler_watching, [])"
    using watchClusterNodes_key_ignores_namespace [OF names ex_watch_new, of ex_env]
    by simp
  then show ?thesis
    using names ex_watch_new
    by (simp add: watchKey_def ex_cluster_def ex_cluster_other_ns_def)
qed

lemma ex_step_check:
  "watch_step ex_env ex_cluster AtCheck ex_reconciler = (AtStart, ex_reconciler, [])"
  by (simp add: watch_step_def ex_informerFor_none)

lemma ex_step_check_watching:
  "watch_step ex_env ex_cluster AtCheck ex_reconciler_watching =
     (Returned None, ex_reconciler_watching, [])"
  by (simp add: watch_step_def ex_informerFor_watching)

lemma ex_step_start:
  "watch_step ex_env ex_cluster AtStart r =
     (AtStore ex_informer, r,
      [CallRESTConfig ex_cluster, CallNewForConfig (RESTConfig ''c1''),
       InformerRun ex_informer, CallWatch ex_informer])"
  by (simp add: watch_step_def ex_env_calls ex_cluster_name ex_informer_def Let_def)

lemma ex_step_store:
  "watch_step ex_env ex_cluster (AtStore ex_informer) ex_reconciler =
     (Returned None, ex_reconciler_watching, [])"
  "watch_step ex_env ex_cluster (AtStore ex_informer) ex_reconciler_watching =
     (Returned None, ex_reconciler_watching, [])"
  by (simp_all add: watch_step_def ex_reconciler_watching_def storeInformer_def)

lemma ex_step_returned:
  "watch_step e c (Returned res) r = (Returned res, r, [])"
  by (simp add: watch_step_def)

lemma ex_race_run:
  "run_watchers ex_env ex_cluster ex_cluster [W1, W2, W1, W2, W1, W2]
     (AtCheck, AtCheck, ex_reconciler, []) =
   (Returned None, Returned None, ex_reconciler_watching,
    [CallRESTConfig ex_cluster, CallNewForConfig (RESTConfig ''c1''),
     InformerRun ex_informer, CallWatch ex_informer,
     CallRESTConfig ex_cluster, CallNewForConfig (RESTConfig ''c1''),
     InformerRun ex_informer, CallWatch ex_informer])"
  by (simp add: ex_step_check ex_step_start ex_step_store)

lemma ex_serial_run:
  "run_watchers ex_env ex_cluster ex_cluster [W1, W1, W1, W2, W2, W2]
     (AtCheck, AtCheck, ex_reconciler, []) =
   (Returned None, Returned None, ex_reconciler_watching,
    [CallRESTConfig ex_cluster, CallNewForConfig (RESTConfig ''c1''),
     InformerRun ex_informer, CallWatch ex_informer])"
  by (simp add: ex_step_check ex_step_start ex_step_store ex_step_check_watching ex_step_returned)

text \<open>
  Claim C8.  Two invocations for the same cluster on a reconciler without an entry for it.
  When each reads the map before the other has written it, both return nil and two
  informers have been started; when one invocation runs after the other, one informer
  has been started.
\<close>

theorem watchClusterNodes_unguarded_race:
  "(case run_watchers ex_env ex_cluster ex_cluster [W1, W2, W1, W2, W1, W2]
           (AtCheck, AtCheck, ex_reconciler, []) of
      (pc1, pc2, r, tr) \<Rightarrow>
        pc1 = Returned None \<and> pc2 = Returned None \<and> length (filter isInformerRun tr) = 2) \<and>
   (case run_watchers ex_env ex_cluster ex_cluster [W1, W1, W1, W2, W2, W2]
           (AtCheck, AtCheck, ex_reconciler, []) of
      (pc1, pc2, r, tr) \<Rightarrow>
        pc1 = Returned None \<and> pc2 = Returned None \<and> length (filter isInformerRun tr) = 1)"
  unfolding ex_race_run ex_serial_run by simp

section \<open>The reconciliation pass\<close>

lemma no_patch_watch: "filter isCallPatch (snd (snd (watchClusterNodes e r cluster))) = []"
  by (simp add: watchClusterNodes_def Let_def split: option.splits sum.splits)

lemma no_patch_remediate: "filter isCallPatch (remediate ts) = []"
  by (induction ts) simp_all

lemma no_patch_reconcile: "filter isCallPatch (snd (snd (snd (reconcile e r cluster m)))) = []"
proof (cases "watchClusterNodes e r cluster")
  case (fields res r1 wevs)
  then have "filter isCallPatch wevs = []"
    using no_patch_watch [of e r cluster] by simp
  then show ?thesis
    using fields
    by (simp add: reconcile_def Let_def no_patch_remediate split: sum.splits option.splits prod.splits)
qed

lemma no_patch_reconcileBody:
  "filter isCallPatch (snd (snd (snd (reconcileBody e r cluster m)))) = []"
proof (cases "reconcile e r cluster (reconcileLabels m)")
  case (fields res m1 r1 evs)
  then have "filter isCallPatch evs = []"
    using no_patch_reconcile [of e r cluster "reconcileLabels m"] by simp
  then show ?thesis
    using fields by (cases res) (simp add: reconcileBody_def split: option.splits)
qed

text \<open>
  Claim C6.  When the policy and its cluster are fetched and the cluster or the policy is
  flagged paused, \<^verbatim>\<open>Reconcile\<close> returns the empty result and no error, leaves
  the reconciler as it was, and has done nothing but the two fetches and the log line: no
  patch helper, no client, no watch, no target listing, no patch.
\<close>

theorem Reconcile_paused_idle:
  assumes "e_Get e name = Inr m"
    and "e_GetClusterByName e (mhc_Namespace m) (mhc_ClusterName m) = Inr cluster"
    and "c_Paused cluster \<or> mhc_Paused m"
  shows "Reconcile e r (Request name) =
           ((noRequeue, None), r,
            [CallGet name, CallGetClusterByName (mhc_Namespace m) (mhc_ClusterName m),
             Log (LogInfo ''reconciliation is paused for this object'')])"
  using assms by (simp add: Reconcile_def IsPaused_def)

text \<open>
  Claim C1, as the code has it.  When the policy and the cluster are fetched, the pass is
  not paused and the patch helper is built, then whatever result and error the body of the
  pass returns, the trace of \<^verbatim>\<open>Reconcile\<close> holds exactly one patch call, as
  its last entry, on the object as the body left it.  The returned error is the body's
  when the patch succeeds; when the patch fails it is the aggregate of the body's error,
  if there is one, and the patch error.
\<close>

theorem Reconcile_patches_once:
  assumes "e_Get e name = Inr m"
    and "e_GetClusterByName e (mhc_Namespace m) (mhc_ClusterName m) = Inr cluster"
    and "\<not> IsPaused cluster m"
    and "e_NewHelper e m = None"
    and "reconcileBody e r cluster m = ((result, bodyerr), m1, r1, evs)"
  shows "\<exists>reterr.
           Reconcile e r (Request name) =
             ((result, reterr), r1,
              [CallGet name, CallGetClusterByName (mhc_Namespace m) (mhc_ClusterName m),
               CallNewHelper m] @ evs @ [CallPatch m1]) \<and>
           filter isCallPatch (snd (snd (Reconcile e r (Request name)))) = [CallPatch m1] \<and>
           (e_Patch e m m1 = None \<longrightarrow> reterr = bodyerr) \<and>
           (\<forall>p. e_Patch e m m1 = Some p \<longrightarrow>
                reterr = Some (Aggregate (case bodyerr of None \<Rightarrow> [p] | Some b \<Rightarrow> [b, p])))"
proof -
  obtain reterr pevs where d: "deferredPatch e m m1 bodyerr = (reterr, pevs)"
    by (cases "deferredPatch e m m1 bodyerr")
  then have pevs: "pevs = [CallPatch m1]"
    by (auto simp: deferredPatch_def split: option.splits)
  have run: "Reconcile e r (Request name) =
      ((result, reterr), r1,
       [CallGet name, CallGetClusterByName (mhc_Namespace m) (mhc_ClusterName m),
        CallNewHelper m] @ evs @ [CallPatch m1])"
    using assms d pevs by (simp add: Reconcile_def)
  have "filter isCallPatch evs = []"
    using no_patch_reconcileBody [of e r cluster m] assms(5) by simp
  then have once: "filter isCallPatch (snd (snd (Reconcile e r (Request name)))) = [CallPatch m1]"
    by (simp add: run)
  have ok: "e_Patch e m m1 = None \<longrightarrow> reterr = bodyerr"
    using d by (cases "e_Patch e m m1") (simp_all add: deferredPatch_def)
  have failed: "\<forall>p. e_Patch e m m1 = Some p \<longrightarrow>
      reterr = Some (Aggregate (case bodyerr of None \<Rightarrow> [p] | Some b \<Rightarrow> [b, p]))"
    using d by (cases bodyerr) (auto simp: deferredPatch_def NewAggregate_def)
  show ?thesis
    by (rule exI [of _ reterr]) (intro conjI run once ok failed)
qed


lemma timeoutForMachineToHaveNode_updates [simp]:
  "timeoutForMachineToHaveNode (ensureClusterOwnerRef e cluster m) = timeoutForMachineToHaveNode m"
  "timeoutForMachineToHaveNode (reconcileLabels m) = timeoutForMachineToHaveNode m"
  "timeoutForMachineToHaveNode (m\<lparr>mhc_ExpectedMachines := n\<rparr>) = timeoutForMachineToHaveNode m"
  by (simp_all add: timeoutForMachineToHaveNode_def ensureClusterOwnerRef_def reconcileLabels_def)

lemma reconcile_success:
  assumes "e_NewClusterClient e cluster = Inr cc"
    and "watchClusterNodes e r cluster = (None, r1, wevs)"
    and "e_getTargetsFromMHC e cc cluster (ensureClusterOwnerRef e cluster m) = Inr targets"
    and "healthCheckTargets (e_now e) targets (timeoutForMachineToHaveNode m) = (h, rem, ds)"
  shows "reconcile e r cluster m =
           ((if 0 < minDuration ds then \<lparr>Requeue = False, RequeueAfter = minDuration ds\<rparr>
             else noRequeue, None),
            (ensureClusterOwnerRef e cluster m)
              \<lparr>mhc_ExpectedMachines := of_nat (length targets), mhc_CurrentHealthy := of_nat h\<rparr>,
            r1,
            CallNewClusterClient cluster # wevs @
            [Log (LogInfo ''Finding targets''),
             CallGetTargets cc cluster (ensureClusterOwnerRef e cluster m)] @
            remediate rem @
            [Log (LogInfo (if 0 < minDuration ds
                           then ''Some targets might go unhealthy. Ensuring a requeue happens''
                           else ''No more targets meet unhealthy criteria''))])"
  using assms by (simp add: reconcile_def Let_def)

lemma reconcile_watch_fails:
  assumes "e_NewClusterClient e cluster = Inr cc"
    and "watchClusterNodes e r cluster = (Some x, r1, wevs)"
  shows "reconcile e r cluster m =
           ((noRequeue, Some x), ensureClusterOwnerRef e cluster m, r1,
            CallNewClusterClient cluster # wevs @
            [Log (LogError x ''Error watching nodes on target cluster'' [])])"
  using assms by (simp add: reconcile_def Let_def)

lemma ex_env_reads:
  "e_Get ex_env ex_name = Inr ex_mhc"
  "e_GetClusterByName ex_env ''ns1'' ''c1'' = Inr ex_cluster"
  "e_NewHelper ex_env m = None"
  "e_Patch ex_env before m = None"
  "e_NewClusterClient ex_env c = Inr (ClusterClient (c_Name c))"
  "e_getTargetsFromMHC ex_env cc c m = Inr [ex_target_healthy, ex_target_no_node_old]"
  "e_now ex_env = 2000000000000"
  by (simp_all add: ex_env_def)

lemma ex_mhc_fields:
  "mhc_Namespace ex_mhc = ''ns1''" "mhc_ClusterName ex_mhc = ''c1''" "mhc_Name ex_mhc = ''mhc1''"
  "mhc_Paused ex_mhc = False" "mhc_NodeStartupTimeout ex_mhc = None"
  "mhc_UnhealthyConditions ex_mhc =
     [\<lparr>uc_Type = ''Ready'', uc_Status = ''False'', uc_Timeout = 300000000000\<rparr>]"
  by (simp_all add: ex_mhc_def)

lemma ex_not_paused: "\<not> IsPaused ex_cluster ex_mhc"
  by (simp add: IsPaused_def ex_cluster_def ex_mhc_fields)

lemma ex_timeout: "timeoutForMachineToHaveNode ex_mhc = 600000000000"
  by (simp add: timeoutForMachineToHaveNode_def ex_mhc_fields Minute_def)

lemma ex_classify_healthy: "classify 2000000000000 600000000000 ex_target_healthy = Healthy"
  by (simp add: classify_def ex_target_healthy_def ex_node_ready_def ex_mhc_fields
      matchingCondition_def)

lemma ex_classify_starting:
  "classify 2000000000000 600000000000 (ex_target_starting created) =
     (if 1400000000000 \<ge> created then NeedsRemediation
      else NotYetDecidable (created - 1400000000000))"
  by (simp add: classify_def ex_target_starting_def Let_def)

lemma ex_classify_old: "classify 2000000000000 600000000000 ex_target_no_node_old = NeedsRemediation"
  unfolding ex_target_no_node_old_def by (simp add: ex_classify_starting)

lemma ex_healthCheckTargets:
  "healthCheckTargets 2000000000000 [ex_target_healthy, ex_target_no_node_old] 600000000000 =
     (1, [ex_target_no_node_old], [])"
  by (simp add: ex_classify_healthy ex_classify_old)

lemma ex_reconcile:
  "reconcile ex_env ex_reconciler ex_cluster (reconcileLabels ex_mhc) =
     ((noRequeue, None),
      (ex_mhc_reconciled ex_env)\<lparr>mhc_ExpectedMachines := 2, mhc_CurrentHealthy := 1\<rparr>,
      ex_reconciler_watching,
      [CallNewClusterClient ex_cluster,
       CallRESTConfig ex_cluster, CallNewForConfig (RESTConfig ''c1''),
       InformerRun ex_informer, CallWatch ex_informer,
       Log (LogInfo ''Finding targets''),
       CallGetTargets (ClusterClient ''c1'') ex_cluster (ex_mhc_reconciled ex_env),
       Log (LogInfo ''Target meets unhealthy criteria, triggers remediation''),
       Log (LogInfo ''No more targets meet unhealthy criteria'')])"
proof -
  have h: "healthCheckTargets (e_now ex_env) [ex_target_healthy, ex_target_no_node_old]
      (timeoutForMachineToHaveNode (reconcileLabels ex_mhc)) = (1, [ex_target_no_node_old], [])"
    by (simp only: ex_env_reads ex_timeout timeoutForMachineToHaveNode_updates
          ex_healthCheckTargets)
  show ?thesis
    using reconcile_success [OF ex_env_reads(5) ex_watch_new ex_env_reads(6) h]
    by (simp add: ex_mhc_reconciled_def ex_cluster_name)
qed


lemma ex_reconcileBody:
  "reconcileBody ex_env ex_reconciler ex_cluster ex_mhc =
     ((noRequeue, None),
      (ex_mhc_reconciled ex_env)\<lparr>mhc_ExpectedMachines := 2, mhc_CurrentHealthy := 1\<rparr>,
      ex_reconciler_watching,
      [CallNewClusterClient ex_cluster,
       CallRESTConfig ex_cluster, CallNewForConfig (RESTConfig ''c1''),
       InformerRun ex_informer, CallWatch ex_informer,
       Log (LogInfo ''Finding targets''),
       CallGetTargets (ClusterClient ''c1'') ex_cluster (ex_mhc_reconciled ex_env),
       Log (LogInfo ''Target meets unhealthy criteria, triggers remediation''),
       Log (LogInfo ''No more targets meet unhealthy criteria'')])"
  by (simp add: reconcileBody_def ex_reconcile)

lemma ex_env_patch_fails_reads:
  "e_Get ex_env_patch_fails ex_name = Inr ex_mhc"
  "e_GetClusterByName ex_env_patch_fails ''ns1'' ''c1'' = Inr ex_cluster"
  "e_NewHelper ex_env_patch_fails m = None"
  "e_Patch ex_env_patch_fails before m = Some (ExternalError ''conflict'')"
  "e_NewClusterClient ex_env_patch_fails c = Inr (ClusterClient (c_Name c))"
  "e_RESTConfig ex_env_patch_fails c = Inl (ExternalError ''no kubeconfig secret'')"
  by (simp_all add: ex_env_patch_fails_def ex_env_no_config_def ex_env_def)

lemma ex_watch_patch_fails:
  "watchClusterNodes ex_env_patch_fails ex_reconciler ex_cluster =
     (Some (Wrap (ExternalError ''no kubeconfig secret'') ''error fetching remote cluster config''),
      ex_reconciler, [CallRESTConfig ex_cluster])"
  by (simp add: watchClusterNodes_def ex_informerFor_none ex_env_patch_fails_reads)

lemma ex_reconcileBody_patch_fails:
  "reconcileBody ex_env_patch_fails ex_reconciler ex_cluster ex_mhc =
     ((noRequeue,
       Some (Wrap (ExternalError ''no kubeconfig secret'') ''error fetching remote cluster config'')),
      ex_mhc_reconciled ex_env_patch_fails, ex_reconciler,
      [CallNewClusterClient ex_cluster, CallRESTConfig ex_cluster,
       Log (LogError
              (Wrap (ExternalError ''no kubeconfig secret'') ''error fetching remote cluster config'')
              ''Error watching nodes on target cluster'' []),
       Log (LogError
              (Wrap (ExternalError ''no kubeconfig secret'') ''error fetching remote cluster config'')
              ''Failed to reconcile MachineHealthCheck'' []),
       RecorderEvent (ex_mhc_reconciled ex_env_patch_fails) ''Warning'' ''ReconcileError''
         (Wrap (ExternalError ''no kubeconfig secret'') ''error fetching remote cluster config'')])"
  using reconcile_watch_fails [OF ex_env_patch_fails_reads(5) ex_watch_patch_fails,
          of "reconcileLabels ex_mhc"]
  by (simp add: reconcileBody_def ex_mhc_reconciled_def)

theorem Reconcile_patches_once_witness:
  "e_Get ex_env ex_name = Inr ex_mhc \<and>
   e_GetClusterByName ex_env (mhc_Namespace ex_mhc) (mhc_ClusterName ex_mhc) = Inr ex_cluster \<and>
   \<not> IsPaused ex_cluster ex_mhc \<and>
   e_NewHelper ex_env ex_mhc = None \<and>
   Reconcile ex_env ex_reconciler (Request ex_name) =
     ((noRequeue, None), ex_reconciler_watching,
      [CallGet ex_name, CallGetClusterByName ''ns1'' ''c1'', CallNewHelper ex_mhc,
       CallNewClusterClient ex_cluster,
       CallRESTConfig ex_cluster, CallNewForConfig (RESTConfig ''c1''),
       InformerRun ex_informer, CallWatch ex_informer,
       Log (LogInfo ''Finding targets''),
       CallGetTargets (ClusterClient ''c1'') ex_cluster (ex_mhc_reconciled ex_env),
       Log (LogInfo ''Target meets unhealthy criteria, triggers remediation''),
       Log (LogInfo ''No more targets meet unhealthy criteria''),
       CallPatch ((ex_mhc_reconciled ex_env)\<lparr>mhc_ExpectedMachines := 2, mhc_CurrentHealthy := 1\<rparr>)]) \<and>
   e_Get ex_env_patch_fails ex_name = Inr ex_mhc \<and>
   e_GetClusterByName ex_env_patch_fails (mhc_Namespace ex_mhc) (mhc_ClusterName ex_mhc) =
     Inr ex_cluster \<and>
   e_NewHelper ex_env_patch_fails ex_mhc = None \<and>
   e_Patch ex_env_patch_fails ex_mhc (ex_mhc_reconciled ex_env_patch_fails) =
     Some (ExternalError ''conflict'') \<and>
   fst (Reconcile ex_env_patch_fails ex_reconciler (Request ex_name)) =
     (noRequeue,
      Some (Aggregate
              [Wrap (ExternalError ''no kubeconfig secret'') ''error fetching remote cluster config'',
               ExternalError ''conflict''])) \<and>
   filter isCallPatch (snd (snd (Reconcile ex_env_patch_fails ex_reconciler (Request ex_name)))) =
     [CallPatch (ex_mhc_reconciled ex_env_patch_fails)]"
proof -
  have get: "e_Get ex_env ex_name = Inr ex_mhc"
    and cluster: "e_GetClusterByName ex_env (mhc_Namespace ex_mhc) (mhc_ClusterName ex_mhc) =
      Inr ex_cluster"
    and helper: "e_NewHelper ex_env ex_mhc = None"
    by (simp_all add: ex_env_reads ex_mhc_fields)
  have get2: "e_Get ex_env_patch_fails ex_name = Inr ex_mhc"
    and cluster2: "e_GetClusterByName ex_env_patch_fails (mhc_Namespace ex_mhc)
      (mhc_ClusterName ex_mhc) = Inr ex_cluster"
    and helper2: "e_NewHelper ex_env_patch_fails ex_mhc = None"
    and patch2: "e_Patch ex_env_patch_fails ex_mhc (ex_mhc_reconciled ex_env_patch_fails) =
      Some (ExternalError ''conflict'')"
    by (simp_all add: ex_env_patch_fails_reads ex_mhc_fields)
  have ok: "Reconcile ex_env ex_reconciler (Request ex_name) =
     ((noRequeue, None), ex_reconciler_watching,
      [CallGet ex_name, CallGetClusterByName ''ns1'' ''c1'', CallNewHelper ex_mhc,
       CallNewClusterClient ex_cluster,
       CallRESTConfig ex_cluster, CallNewForConfig (RESTConfig ''c1''),
       InformerRun ex_informer, CallWatch ex_informer,
       Log (LogInfo ''Finding targets''),
       CallGetTargets (ClusterClient ''c1'') ex_cluster (ex_mhc_reconciled ex_env),
       Log (LogInfo ''Target meets unhealthy criteria, triggers remediation''),
       Log (LogInfo ''No more targets meet unhealthy criteria''),
       CallPatch ((ex_mhc_reconciled ex_env)\<lparr>mhc_ExpectedMachines := 2, mhc_CurrentHealthy := 1\<rparr>)])"
    using Reconcile_patches_once [OF get cluster ex_not_paused helper ex_reconcileBody]
    by (auto simp: ex_env_reads ex_mhc_fields)
  have failed: "fst (Reconcile ex_env_patch_fails ex_reconciler (Request ex_name)) =
     (noRequeue,
      Some (Aggregate
              [Wrap (ExternalError ''no kubeconfig secret'') ''error fetching remote cluster config'',
               ExternalError ''conflict'']))"
    and once: "filter isCallPatch
       (snd (snd (Reconcile ex_env_patch_fails ex_reconciler (Request ex_name)))) =
     [CallPatch (ex_mhc_reconciled ex_env_patch_fails)]"
    using Reconcile_patches_once [OF get2 cluster2 ex_not_paused helper2 ex_reconcileBody_patch_fails]
          patch2
    by auto
  show ?thesis
    by (intro conjI get cluster ex_not_paused helper ok get2 cluster2 helper2 patch2 failed once)
qed

lemma ex_env_no_helper_reads:
  "e_Get ex_env_no_helper ex_name = Inr ex_mhc"
  "e_GetClusterByName ex_env_no_helper ''ns1'' ''c1'' = Inr ex_cluster"
  "e_NewHelper ex_env_no_helper m = Some (ExternalError ''cannot convert object'')"
  by (simp_all add: ex_env_no_helper_def ex_env_def)

lemma ex_env_no_cluster_reads:
  "e_Get ex_env_no_cluster ex_name = Inr ex_mhc"
  "e_GetClusterByName ex_env_no_cluster ns name = Inl (StatusNotFound name)"
  by (simp_all add: ex_env_no_cluster_def ex_env_def)

text \<open>
  Claim C1 as stated does not hold: when the patch helper cannot be built, and when the
  cluster cannot be fetched, the policy was fetched and nothing is paused, yet
  \<^verbatim>\<open>Reconcile\<close> returns before the patch is deferred and the trace holds no
  patch call.
\<close>

theorem Reconcile_returns_before_defer:
  "e_Get ex_env_no_helper ex_name = Inr ex_mhc \<and>
   e_GetClusterByName ex_env_no_helper (mhc_Namespace ex_mhc) (mhc_ClusterName ex_mhc) =
     Inr ex_cluster \<and>
   \<not> IsPaused ex_cluster ex_mhc \<and>
   Reconcile ex_env_no_helper ex_reconciler (Request ex_name) =
     ((noRequeue, Some (ExternalError ''cannot convert object'')), ex_reconciler,
      [CallGet ex_name, CallGetClusterByName ''ns1'' ''c1'', CallNewHelper ex_mhc,
       Log (LogError (ExternalError ''cannot convert object'') ''Failed to build patch helper'' [])]) \<and>
   filter isCallPatch (snd (snd (Reconcile ex_env_no_helper ex_reconciler (Request ex_name)))) = [] \<and>
   e_Get ex_env_no_cluster ex_name = Inr ex_mhc \<and>
   mhc_Paused ex_mhc = False \<and>
   Reconcile ex_env_no_cluster ex_reconciler (Request ex_name) =
     ((noRequeue,
       Some (Wrapf (StatusNotFound ''c1'')
               ''failed to get Cluster %q for MachineHealthCheck %q in namespace %q''
               [''c1'', ''mhc1'', ''ns1''])), ex_reconciler,
      [CallGet ex_name, CallGetClusterByName ''ns1'' ''c1'',
       Log (LogError (StatusNotFound ''c1'') ''Failed to fetch Cluster for MachineHealthCheck'' [])]) \<and>
   filter isCallPatch (snd (snd (Reconcile ex_env_no_cluster ex_reconciler (Request ex_name)))) = []"
  by (simp add: Reconcile_def ex_env_no_helper_reads ex_env_no_cluster_reads ex_mhc_fields
      ex_not_paused)

lemma ex_env_paused_reads:
  "e_Get ex_env_paused ex_name = Inr ex_mhc"
  "e_GetClusterByName ex_env_paused ns name = Inr (ex_cluster\<lparr>c_Paused := True\<rparr>)"
  by (simp_all add: ex_env_paused_def ex_env_def)

theorem Reconcile_paused_idle_witness:
  "e_Get ex_env_paused ex_name = Inr ex_mhc \<and>
   e_GetClusterByName ex_env_paused (mhc_Namespace ex_mhc) (mhc_ClusterName ex_mhc) =
     Inr (ex_cluster\<lparr>c_Paused := True\<rparr>) \<and>
   c_Paused (ex_cluster\<lparr>c_Paused := True\<rparr>) \<and>
   Reconcile ex_env_paused ex_reconciler (Request ex_name) =
     ((noRequeue, None), ex_reconciler,
      [CallGet ex_name, CallGetClusterByName ''ns1'' ''c1'',
       Log (LogInfo ''reconciliation is paused for this object'')])"
proof -
  have paused: "c_Paused (ex_cluster\<lparr>c_Paused := True\<rparr>) \<or> mhc_Paused ex_mhc"
    by simp
  show ?thesis
    using Reconcile_paused_idle [OF ex_env_paused_reads(1) ex_env_paused_reads(2) paused,
            of ex_reconciler]
    by (simp add: ex_env_paused_reads ex_mhc_fields)
qed


lemma Reconcile_run:
  assumes "e_Get e name = Inr m"
    and "e_GetClusterByName e (mhc_Namespace m) (mhc_ClusterName m) = Inr cluster"
    and "\<not> IsPaused cluster m"
    and "e_NewHelper e m = None"
    and "reconcileBody e r cluster m = ((result, bodyerr), m1, r1, evs)"
  shows "Reconcile e r (Request name) =
           ((result, fst (deferredPatch e m m1 bodyerr)), r1,
            [CallGet name, CallGetClusterByName (mhc_Namespace m) (mhc_ClusterName m),
             CallNewHelper m] @ evs @ [CallPatch m1])"
proof -
  have "snd (deferredPatch e m m1 bodyerr) = [CallPatch m1]"
    by (simp add: deferredPatch_def split: option.splits)
  then show ?thesis
    using assms by (cases "deferredPatch e m m1 bodyerr") (simp add: Reconcile_def)
qed

lemma Reconcile_success_run:
  assumes "e_Get e name = Inr m"
    and "e_GetClusterByName e (mhc_Namespace m) (mhc_ClusterName m) = Inr cluster"
    and "\<not> IsPaused cluster m"
    and "e_NewHelper e m = None"
    and "e_NewClusterClient e cluster = Inr cc"
    and "watchClusterNodes e r cluster = (None, r1, wevs)"
    and "e_getTargetsFromMHC e cc cluster (ensureClusterOwnerRef e cluster (reconcileLabels m)) =
           Inr targets"
    and "healthCheckTargets (e_now e) targets (timeoutForMachineToHaveNode m) = (h, rem, ds)"
    and "m1 = (ensureClusterOwnerRef e cluster (reconcileLabels m))
                \<lparr>mhc_ExpectedMachines := of_nat (length targets), mhc_CurrentHealthy := of_nat h\<rparr>"
  shows "fst (fst (Reconcile e r (Request name))) =
           (if 0 < minDuration ds then \<lparr>Requeue = False, RequeueAfter = minDuration ds\<rparr>
            else noRequeue)"
    and "snd (fst (Reconcile e r (Request name))) = fst (deferredPatch e m m1 None)"
    and "last (snd (snd (Reconcile e r (Request name)))) = CallPatch m1"
proof -
  have h: "healthCheckTargets (e_now e) targets (timeoutForMachineToHaveNode (reconcileLabels m)) =
      (h, rem, ds)"
    using assms(8) by simp
  have body: "reconcileBody e r cluster m =
      ((if 0 < minDuration ds then \<lparr>Requeue = False, RequeueAfter = minDuration ds\<rparr>
        else noRequeue, None), m1, r1,
       CallNewClusterClient cluster # wevs @
       [Log (LogInfo ''Finding targets''),
        CallGetTargets cc cluster (ensureClusterOwnerRef e cluster (reconcileLabels m))] @
       remediate rem @
       [Log (LogInfo (if 0 < minDuration ds
                      then ''Some targets might go unhealthy. Ensuring a requeue happens''
                      else ''No more targets meet unhealthy criteria''))])"
    unfolding reconcileBody_def reconcile_success [OF assms(5) assms(6) assms(7) h] assms(9)
    by simp
  note run = Reconcile_run [OF assms(1) assms(2) assms(3) assms(4) body]
  show "fst (fst (Reconcile e r (Request name))) =
           (if 0 < minDuration ds then \<lparr>Requeue = False, RequeueAfter = minDuration ds\<rparr>
            else noRequeue)"
    by (simp only: run fst_conv)
  show "snd (fst (Reconcile e r (Request name))) = fst (deferredPatch e m m1 None)"
    by (simp only: run fst_conv snd_conv)
  show "last (snd (snd (Reconcile e r (Request name)))) = CallPatch m1"
    by (simp only: run snd_conv) simp
qed

lemma minDuration_Min: "ds \<noteq> [] \<Longrightarrow> minDuration ds = Min (set ds)"
  by (induction ds rule: minDuration.induct) (simp_all add: min_def)

lemma classify_remaining_positive: "classify now timeout t = NotYetDecidable d \<Longrightarrow> 0 < d"
  by (auto simp: classify_def Let_def split: option.splits if_splits)

lemma healthCheckTargets_healthy:
  "fst (healthCheckTargets now ts timeout) =
     length (filter (\<lambda>t. classify now timeout t = Healthy) ts)"
  by (induction ts) (auto split: prod.splits verdict.splits)

lemma healthCheckTargets_remediation:
  "fst (snd (healthCheckTargets now ts timeout)) =
     filter (\<lambda>t. classify now timeout t = NeedsRemediation) ts"
  by (induction ts) (auto split: prod.splits verdict.splits)

lemma healthCheckTargets_positive:
  "d \<in> set (snd (snd (healthCheckTargets now ts timeout))) \<Longrightarrow> 0 < d"
proof (induction ts arbitrary: d)
  case Nil
  then show ?case by simp
next
  case (Cons t ts)
  then show ?case
    by (cases "healthCheckTargets now ts timeout"; cases "classify now timeout t")
      (auto dest: classify_remaining_positive)
qed

text \<open>
  Claim C4.  In a pass that reaches the health check: when the list of next-check
  durations is not empty, the result of \<^verbatim>\<open>Reconcile\<close> requeues after the
  minimum of the list, which is positive as every duration of the list is; when the list
  is empty, the result is the empty result, which schedules no requeue.
\<close>

theorem Reconcile_requeue_after_minimum:
  assumes "e_Get e name = Inr m"
    and "e_GetClusterByName e (mhc_Namespace m) (mhc_ClusterName m) = Inr cluster"
    and "\<not> IsPaused cluster m"
    and "e_NewHelper e m = None"
    and "e_NewClusterClient e cluster = Inr clusterClient"
    and "fst (watchClusterNodes e r cluster) = None"
    and "e_getTargetsFromMHC e clusterClient cluster
           (ensureClusterOwnerRef e cluster (reconcileLabels m)) = Inr targets"
    and "healthCheckTargets (e_now e) targets (timeoutForMachineToHaveNode m) =
           (currentHealthy, needRemediationTargets, nextCheckTimes)"
  shows "(nextCheckTimes \<noteq> [] \<longrightarrow>
            fst (fst (Reconcile e r (Request name))) =
              \<lparr>Requeue = False, RequeueAfter = Min (set nextCheckTimes)\<rparr> \<and>
            0 < Min (set nextCheckTimes) \<and>
            (\<forall>d \<in> set nextCheckTimes. 0 < d)) \<and>
         (nextCheckTimes = [] \<longrightarrow> fst (fst (Reconcile e r (Request name))) = noRequeue)"
proof -
  obtain r1 wevs where watch: "watchClusterNodes e r cluster = (None, r1, wevs)"
    using assms(6) by (cases "watchClusterNodes e r cluster") auto
  note result = Reconcile_success_run(1)
    [OF assms(1) assms(2) assms(3) assms(4) assms(5) watch assms(7) assms(8) refl]
  have positive: "\<forall>d \<in> set nextCheckTimes. 0 < d"
    using healthCheckTargets_positive [of _ "e_now e" targets "timeoutForMachineToHaveNode m"]
      assms(8) by simp
  show ?thesis
  proof (cases "nextCheckTimes = []")
    case True
    then show ?thesis
      using result by simp
  next
    case False
    then have min: "minDuration nextCheckTimes = Min (set nextCheckTimes)"
      by (rule minDuration_Min)
    have "Min (set nextCheckTimes) \<in> set nextCheckTimes"
      using False by simp
    then have "0 < Min (set nextCheckTimes)"
      using positive by blast
    then show ?thesis
      using result min positive False by simp
  qed
qed

lemma sint_int32_of_nat:
  assumes "n < 2 ^ 31"
  shows "sint (of_nat n :: 32 word) = int n"
proof -
  have "int n < 2 ^ 31"
    using assms by (metis of_nat_less_iff of_nat_numeral of_nat_power)
  then have "signed_take_bit 31 (int n) = int n"
    by (intro signed_take_bit_int_eq_self) simp_all
  then show ?thesis
    by (simp add: signed_of_nat)
qed

text \<open>
  Claim C5, as the code has it.  In a pass that resolves fewer than \<open>2 ^ 31\<close> targets,
  the object handed to the status patch has an expected-target count equal to the
  number of targets, a current-healthy count equal to the number of targets classified
  healthy, and the second is at most the first.
\<close>

theorem reconcile_status_counts:
  assumes "e_Get e name = Inr m"
    and "e_GetClusterByName e (mhc_Namespace m) (mhc_ClusterName m) = Inr cluster"
    and "\<not> IsPaused cluster m"
    and "e_NewHelper e m = None"
    and "e_NewClusterClient e cluster = Inr clusterClient"
    and "fst (watchClusterNodes e r cluster) = None"
    and "e_getTargetsFromMHC e clusterClient cluster
           (ensureClusterOwnerRef e cluster (reconcileLabels m)) = Inr targets"
    and "length targets < 2 ^ 31"
  shows "\<exists>m1. last (snd (snd (Reconcile e r (Request name)))) = CallPatch m1 \<and>
           sint (mhc_ExpectedMachines m1) = int (length targets) \<and>
           sint (mhc_CurrentHealthy m1) =
             int (length (filter (\<lambda>t. classify (e_now e) (timeoutForMachineToHaveNode m) t = Healthy)
                            targets)) \<and>
           sint (mhc_CurrentHealthy m1) \<le> sint (mhc_ExpectedMachines m1)"
proof -
  obtain r1 wevs where watch: "watchClusterNodes e r cluster = (None, r1, wevs)"
    using assms(6) by (cases "watchClusterNodes e r cluster") auto
  obtain h rem ds where
    hct: "healthCheckTargets (e_now e) targets (timeoutForMachineToHaveNode m) = (h, rem, ds)"
    by (cases "healthCheckTargets (e_now e) targets (timeoutForMachineToHaveNode m)")
  define m1 where "m1 = (ensureClusterOwnerRef e cluster (reconcileLabels m))
      \<lparr>mhc_ExpectedMachines := of_nat (length targets), mhc_CurrentHealthy := of_nat h\<rparr>"
  have patched: "last (snd (snd (Reconcile e r (Request name)))) = CallPatch m1"
    by (rule Reconcile_success_run(3)
        [OF assms(1) assms(2) assms(3) assms(4) assms(5) watch assms(7) hct m1_def])
  have h: "h = length (filter (\<lambda>t. classify (e_now e) (timeoutForMachineToHaveNode m) t = Healthy)
      targets)"
    using healthCheckTargets_healthy [of "e_now e" targets "timeoutForMachineToHaveNode m"] hct
    by simp
  then have "h \<le> length targets"
    by simp
  then have small: "h < 2 ^ 31"
    using assms(8) by simp
  have expected: "sint (mhc_ExpectedMachines m1) = int (length targets)"
    using assms(8) by (simp add: m1_def sint_int32_of_nat)
  have healthy: "sint (mhc_CurrentHealthy m1) = int h"
    using small by (simp add: m1_def sint_int32_of_nat)
  show ?thesis
    using patched expected healthy h \<open>h \<le> length targets\<close>
    by (intro exI [of _ m1]) simp
qed


lemma ex_env_starting_reads:
  "e_Get ex_env_starting ex_name = Inr ex_mhc"
  "e_GetClusterByName ex_env_starting ''ns1'' ''c1'' = Inr ex_cluster"
  "e_NewHelper ex_env_starting m = None"
  "e_NewClusterClient ex_env_starting c = Inr (ClusterClient (c_Name c))"
  "e_getTargetsFromMHC ex_env_starting cc c m =
     Inr [ex_target_starting 1405000000000, ex_target_healthy,
          ex_target_starting 1412000000000, ex_target_starting 1403000000000]"
  "e_now ex_env_starting = 2000000000000"
  "e_RESTConfig ex_env_starting = e_RESTConfig ex_env"
  "e_NewForConfig ex_env_starting = e_NewForConfig ex_env"
  "e_Watch ex_env_starting = e_Watch ex_env"
  by (simp_all add: ex_env_starting_def ex_env_def)

lemma watchClusterNodes_env_cong:
  "e_RESTConfig e2 = e_RESTConfig e1 \<Longrightarrow> e_NewForConfig e2 = e_NewForConfig e1 \<Longrightarrow>
   e_Watch e2 = e_Watch e1 \<Longrightarrow> watchClusterNodes e2 r c = watchClusterNodes e1 r c"
  unfolding watchClusterNodes_def by (simp only:)

lemma ex_healthCheckTargets_starting:
  "healthCheckTargets 2000000000000
     [ex_target_starting 1405000000000, ex_target_healthy,
      ex_target_starting 1412000000000, ex_target_starting 1403000000000] 600000000000 =
   (1, [], [5000000000, 12000000000, 3000000000])"
  by (simp add: ex_classify_healthy ex_classify_starting)

theorem Reconcile_requeue_after_minimum_witness:
  "e_Get ex_env_starting ex_name = Inr ex_mhc \<and>
   e_GetClusterByName ex_env_starting (mhc_Namespace ex_mhc) (mhc_ClusterName ex_mhc) =
     Inr ex_cluster \<and>
   \<not> IsPaused ex_cluster ex_mhc \<and>
   e_NewHelper ex_env_starting ex_mhc = None \<and>
   e_NewClusterClient ex_env_starting ex_cluster = Inr (ClusterClient ''c1'') \<and>
   fst (watchClusterNodes ex_env_starting ex_reconciler ex_cluster) = None \<and>
   healthCheckTargets (e_now ex_env_starting)
     [ex_target_starting 1405000000000, ex_target_healthy,
      ex_target_starting 1412000000000, ex_target_starting 1403000000000]
     (timeoutForMachineToHaveNode ex_mhc) = (1, [], [5000000000, 12000000000, 3000000000]) \<and>
   fst (fst (Reconcile ex_env_starting ex_reconciler (Request ex_name))) =
     \<lparr>Requeue = False, RequeueAfter = 3000000000\<rparr> \<and>
   healthCheckTargets (e_now ex_env) [ex_target_healthy, ex_target_no_node_old]
     (timeoutForMachineToHaveNode ex_mhc) = (1, [ex_target_no_node_old], []) \<and>
   fst (fst (Reconcile ex_env ex_reconciler (Request ex_name))) = noRequeue"
proof -
  have get: "e_Get ex_env_starting ex_name = Inr ex_mhc"
    and cluster: "e_GetClusterByName ex_env_starting (mhc_Namespace ex_mhc)
      (mhc_ClusterName ex_mhc) = Inr ex_cluster"
    and helper: "e_NewHelper ex_env_starting ex_mhc = None"
    and client: "e_NewClusterClient ex_env_starting ex_cluster = Inr (ClusterClient ''c1'')"
    by (simp_all add: ex_env_starting_reads ex_mhc_fields ex_cluster_name)
  have watch: "fst (watchClusterNodes ex_env_starting ex_reconciler ex_cluster) = None"
    by (simp add: watchClusterNodes_env_cong [of ex_env_starting ex_env] ex_env_starting_reads
        ex_watch_new)
  have hct: "healthCheckTargets (e_now ex_env_starting)
     [ex_target_starting 1405000000000, ex_target_healthy,
      ex_target_starting 1412000000000, ex_target_starting 1403000000000]
     (timeoutForMachineToHaveNode ex_mhc) = (1, [], [5000000000, 12000000000, 3000000000])"
    by (simp only: ex_env_starting_reads ex_timeout ex_healthCheckTargets_starting)
  have requeue: "fst (fst (Reconcile ex_env_starting ex_reconciler (Request ex_name))) =
     \<lparr>Requeue = False, RequeueAfter = 3000000000\<rparr>"
    using Reconcile_requeue_after_minimum
            [OF get cluster ex_not_paused helper client watch ex_env_starting_reads(5) hct]
    by simp
  have get0: "e_Get ex_env ex_name = Inr ex_mhc"
    and cluster0: "e_GetClusterByName ex_env (mhc_Namespace ex_mhc) (mhc_ClusterName ex_mhc) =
      Inr ex_cluster"
    and helper0: "e_NewHelper ex_env ex_mhc = None"
    and client0: "e_NewClusterClient ex_env ex_cluster = Inr (ClusterClient ''c1'')"
    by (simp_all add: ex_env_reads ex_mhc_fields ex_cluster_name)
  have watch0: "fst (watchClusterNodes ex_env ex_reconciler ex_cluster) = None"
    by (simp add: ex_watch_new)
  have hct0: "healthCheckTargets (e_now ex_env) [ex_target_healthy, ex_target_no_node_old]
     (timeoutForMachineToHaveNode ex_mhc) = (1, [ex_target_no_node_old], [])"
    by (simp only: ex_env_reads ex_timeout ex_healthCheckTargets)
  have idle: "fst (fst (Reconcile ex_env ex_reconciler (Request ex_name))) = noRequeue"
    using Reconcile_requeue_after_minimum
            [OF get0 cluster0 ex_not_paused helper0 client0 watch0 ex_env_reads(6) hct0]
    by simp
  show ?thesis
    by (intro conjI get cluster ex_not_paused helper client watch hct requeue hct0 idle)
qed

lemma ex_patched_last:
  "last (snd (snd (Reconcile ex_env ex_reconciler (Request ex_name)))) = CallPatch ex_mhc_patched"
proof -
  have hct: "healthCheckTargets (e_now ex_env) [ex_target_healthy, ex_target_no_node_old]
     (timeoutForMachineToHaveNode ex_mhc) = (1, [ex_target_no_node_old], [])"
    by (simp only: ex_env_reads ex_timeout ex_healthCheckTargets)
  have m1: "ex_mhc_patched = (ensureClusterOwnerRef ex_env ex_cluster (reconcileLabels ex_mhc))
      \<lparr>mhc_ExpectedMachines := of_nat (length [ex_target_healthy, ex_target_no_node_old]),
       mhc_CurrentHealthy := of_nat 1\<rparr>"
    by (simp add: ex_mhc_patched_def ex_mhc_reconciled_def)
  show ?thesis
    by (rule Reconcile_success_run(3) [OF _ _ ex_not_paused _ _ ex_watch_new _ hct m1])
      (simp_all add: ex_env_reads ex_mhc_fields ex_cluster_name)
qed

theorem reconcile_status_counts_witness:
  "e_Get ex_env ex_name = Inr ex_mhc \<and>
   e_GetClusterByName ex_env (mhc_Namespace ex_mhc) (mhc_ClusterName ex_mhc) = Inr ex_cluster \<and>
   \<not> IsPaused ex_cluster ex_mhc \<and>
   e_NewHelper ex_env ex_mhc = None \<and>
   e_NewClusterClient ex_env ex_cluster = Inr (ClusterClient ''c1'') \<and>
   fst (watchClusterNodes ex_env ex_reconciler ex_cluster) = None \<and>
   e_getTargetsFromMHC ex_env (ClusterClient ''c1'') ex_cluster (ex_mhc_reconciled ex_env) =
     Inr [ex_target_healthy, ex_target_no_node_old] \<and>
   length [ex_target_healthy, ex_target_no_node_old] < 2 ^ 31 \<and>
   last (snd (snd (Reconcile ex_env ex_reconciler (Request ex_name)))) = CallPatch ex_mhc_patched \<and>
   sint (mhc_ExpectedMachines ex_mhc_patched) = 2 \<and>
   sint (mhc_CurrentHealthy ex_mhc_patched) = 1"
proof -
  have get0: "e_Get ex_env ex_name = Inr ex_mhc"
    and cluster0: "e_GetClusterByName ex_env (mhc_Namespace ex_mhc) (mhc_ClusterName ex_mhc) =
      Inr ex_cluster"
    and helper0: "e_NewHelper ex_env ex_mhc = None"
    and client0: "e_NewClusterClient ex_env ex_cluster = Inr (ClusterClient ''c1'')"
    by (simp_all add: ex_env_reads ex_mhc_fields ex_cluster_name)
  have watch0: "fst (watchClusterNodes ex_env ex_reconciler ex_cluster) = None"
    by (simp add: ex_watch_new)
  have targets: "e_getTargetsFromMHC ex_env (ClusterClient ''c1'') ex_cluster
      (ex_mhc_reconciled ex_env) = Inr [ex_target_healthy, ex_target_no_node_old]"
    by (rule ex_env_reads)
  have few: "length [ex_target_healthy, ex_target_no_node_old] < 2 ^ 31"
    by simp
  obtain m1 where m1: "last (snd (snd (Reconcile ex_env ex_reconciler (Request ex_name)))) =
      CallPatch m1"
    and expected: "sint (mhc_ExpectedMachines m1) =
      int (length [ex_target_healthy, ex_target_no_node_old])"
    and healthy: "sint (mhc_CurrentHealthy m1) =
      int (length (filter (\<lambda>t. classify (e_now ex_env) (timeoutForMachineToHaveNode ex_mhc) t = Healthy)
                     [ex_target_healthy, ex_target_no_node_old]))"
    using reconcile_status_counts
            [OF get0 cluster0 ex_not_paused helper0 client0 watch0
                targets [unfolded ex_mhc_reconciled_def] few]
    by blast
  have same: "m1 = ex_mhc_patched"
    using m1 ex_patched_last by simp
  have "sint (mhc_ExpectedMachines ex_mhc_patched) = 2"
    using expected same by simp
  moreover have "sint (mhc_CurrentHealthy ex_mhc_patched) = 1"
    using healthy same
    by (simp add: ex_env_reads ex_timeout ex_classify_healthy ex_classify_old)
  ultimately show ?thesis
    using get0 cluster0 ex_not_paused helper0 client0 watch0 targets few ex_patched_last
    by simp
qed

lemma healthCheckTargets_replicate_unhealthy:
  "classify now timeout t = NeedsRemediation \<Longrightarrow>
   healthCheckTargets now (replicate n t) timeout = (0, replicate n t, [])"
  by (induction n) simp_all

lemma ex_env_many_reads:
  "e_Get ex_env_many ex_name = Inr ex_mhc"
  "e_GetClusterByName ex_env_many ''ns1'' ''c1'' = Inr ex_cluster"
  "e_NewHelper ex_env_many m = None"
  "e_Patch ex_env_many before m = None"
  "e_NewClusterClient ex_env_many c = Inr (ClusterClient (c_Name c))"
  "e_getTargetsFromMHC ex_env_many cc c m = Inr (replicate ex_many ex_target_no_node_old)"
  "e_now ex_env_many = 2000000000000"
  "e_RESTConfig ex_env_many = e_RESTConfig ex_env"
  "e_NewForConfig ex_env_many = e_NewForConfig ex_env"
  "e_Watch ex_env_many = e_Watch ex_env"
  by (simp_all add: ex_env_many_def ex_env_def)

lemma ex_many_int32: "sint (of_nat ex_many :: 32 word) = - 2147483648"
  by (simp add: ex_many_def)

text \<open>
  Claim C5 as stated does not hold: the counters are \<^verbatim>\<open>int32\<close>.  With
  \<open>2 ^ 31\<close> targets, none of them healthy, the pass succeeds and patches an object
  whose expected-target count is \<open>- 2 ^ 31\<close>, below its current-healthy count of
  zero.
\<close>

theorem reconcile_status_counts_wrap:
  "e_getTargetsFromMHC ex_env_many (ClusterClient ''c1'') ex_cluster (ex_mhc_reconciled ex_env_many) =
     Inr (replicate ex_many ex_target_no_node_old) \<and>
   int (length (replicate ex_many ex_target_no_node_old)) = 2147483648 \<and>
   fst (Reconcile ex_env_many ex_reconciler (Request ex_name)) = (noRequeue, None) \<and>
   last (snd (snd (Reconcile ex_env_many ex_reconciler (Request ex_name)))) = CallPatch ex_mhc_many \<and>
   sint (mhc_ExpectedMachines ex_mhc_many) = - 2147483648 \<and>
   sint (mhc_CurrentHealthy ex_mhc_many) = 0 \<and>
   \<not> sint (mhc_CurrentHealthy ex_mhc_many) \<le> sint (mhc_ExpectedMachines ex_mhc_many)"
proof -
  have watch: "watchClusterNodes ex_env_many ex_reconciler ex_cluster =
      (None, ex_reconciler_watching,
       [CallRESTConfig ex_cluster, CallNewForConfig (RESTConfig ''c1''),
        InformerRun ex_informer, CallWatch ex_informer])"
    by (simp add: watchClusterNodes_env_cong [of ex_env_many ex_env] ex_env_many_reads ex_watch_new)
  have hct: "healthCheckTargets (e_now ex_env_many) (replicate ex_many ex_target_no_node_old)
      (timeoutForMachineToHaveNode ex_mhc) = (0, replicate ex_many ex_target_no_node_old, [])"
    unfolding ex_env_many_reads ex_timeout
    by (rule healthCheckTargets_replicate_unhealthy) (rule ex_classify_old)
  have m1: "ex_mhc_many = (ensureClusterOwnerRef ex_env_many ex_cluster (reconcileLabels ex_mhc))
      \<lparr>mhc_ExpectedMachines := of_nat (length (replicate ex_many ex_target_no_node_old)),
       mhc_CurrentHealthy := of_nat 0\<rparr>"
    by (simp add: ex_mhc_many_def ex_mhc_reconciled_def)
  note run = Reconcile_success_run [OF _ _ ex_not_paused _ _ watch _ hct m1, of ex_name "ClusterClient ''c1''"]
  have result: "fst (fst (Reconcile ex_env_many ex_reconciler (Request ex_name))) = noRequeue"
    using run(1) by (simp add: ex_env_many_reads ex_mhc_fields ex_cluster_name)
  have error: "snd (fst (Reconcile ex_env_many ex_reconciler (Request ex_name))) = None"
    using run(2) by (simp add: ex_env_many_reads ex_mhc_fields ex_cluster_name deferredPatch_def)
  have patched: "last (snd (snd (Reconcile ex_env_many ex_reconciler (Request ex_name)))) =
      CallPatch ex_mhc_many"
    using run(3) by (simp add: ex_env_many_reads ex_mhc_fields ex_cluster_name)
  have expected: "sint (mhc_ExpectedMachines ex_mhc_many) = - 2147483648"
    by (simp add: ex_mhc_many_def ex_many_int32)
  have healthy: "sint (mhc_CurrentHealthy ex_mhc_many) = 0"
    by (simp add: ex_mhc_many_def)
  have len: "int (length (replicate ex_many ex_target_no_node_old)) = 2147483648"
    by (simp add: ex_many_def)
  show ?thesis
    using result error patched expected healthy len
    by (simp add: ex_env_many_reads prod_eq_iff)
qed

end
